theory Spec2Isabelle
  imports Main
begin

section \<open>Python values used by hypercorn/protocol/ws_stream.py\<close>

text \<open>
  A Python \<open>bytes\<close> object is a list of bytes, one \<open>char\<close> per byte, so that the
  literal \<open>b"connection"\<close> is \<open>''connection''\<close>. A Python \<open>str\<close> is a list of code
  points; \<open>ustr\<close> turns an ASCII literal into such a list.
\<close>

type_synonym bytes = string
type_synonym pystr = "nat list"

definition ustr :: "string \<Rightarrow> pystr" where
  "ustr s = map of_char s"

text \<open>
  The values an ASGI message can carry. Tuples are represented as lists; floats and
  other objects are not represented.
\<close>

datatype pyval =
    PNone
  | PBool bool
  | PInt int
  | PStr pystr
  | PBytes bytes
  | PList "pyval list"

text \<open>A message is a dict with string keys; the first binding of a key is the one read.\<close>

type_synonym message = "(string \<times> pyval) list"

datatype ASGIWebsocketState = HANDSHAKE | CONNECTED | RESPONSE | CLOSED | HTTPCLOSED

text \<open>
  The exceptions that can leave the functions of the module: Python's own, the module's
  \<open>FrameTooLarge\<close>, the \<open>Exception("Invalid Subprotocol")\<close> of \<open>Handshake.accept\<close>,
  \<open>UnexpectedMessage(state, type)\<close> of hypercorn.utils and wsproto's protocol errors.
\<close>

datatype exn =
    KeyError
  | TypeError
  | ValueError
  | AttributeError
  | UnicodeDecodeError
  | UnicodeEncodeError
  | InvalidSubprotocol
  | FrameTooLarge
  | UnexpectedMessage ASGIWebsocketState pyval
  | LocalProtocolError
  | RemoteProtocolError

subsection \<open>Built-in operations\<close>

text \<open>\<open>message[k]\<close> raises KeyError on a missing key; \<open>message.get(k, d)\<close> does not.\<close>

definition getitem :: "message \<Rightarrow> string \<Rightarrow> exn + pyval" where
  "getitem m k = (case map_of m k of None \<Rightarrow> Inl KeyError | Some v \<Rightarrow> Inr v)"

definition get_default :: "message \<Rightarrow> string \<Rightarrow> pyval \<Rightarrow> pyval" where
  "get_default m k d = (case map_of m k of None \<Rightarrow> d | Some v \<Rightarrow> v)"

text \<open>Truth value of an object, as \<open>not x\<close> and \<open>if x\<close> test it.\<close>

fun truthy :: "pyval \<Rightarrow> bool" where
  "truthy PNone = False"
| "truthy (PBool b) = b"
| "truthy (PInt n) = (n \<noteq> 0)"
| "truthy (PStr s) = (s \<noteq> [])"
| "truthy (PBytes b) = (b \<noteq> [])"
| "truthy (PList xs) = (xs \<noteq> [])"

text \<open>
  An object used as an integer (\<open>100 <= status\<close>, \<open>int(status)\<close> after that comparison,
  an element of the iterable given to \<open>bytes\<close>): an int, or a bool, which is an int.
\<close>

fun as_int :: "pyval \<Rightarrow> exn + int" where
  "as_int (PInt n) = Inr n"
| "as_int (PBool b) = Inr (if b then 1 else 0)"
| "as_int v = Inl TypeError"

text \<open>
  \<open>bytes(x)\<close>: a bytes object is copied, an int \<open>n\<close> gives \<open>n\<close> zero bytes (ValueError
  when negative), a list gives one byte per element (each an int in \<open>range(256)\<close>), a
  str or None is a TypeError.
\<close>

fun byte_of :: "pyval \<Rightarrow> exn + char" where
  "byte_of v =
     (case as_int v of
        Inl e \<Rightarrow> Inl e
      | Inr n \<Rightarrow> if 0 \<le> n \<and> n < 256 then Inr (char_of (nat n)) else Inl ValueError)"

fun bytes_of_list :: "pyval list \<Rightarrow> exn + bytes" where
  "bytes_of_list [] = Inr []"
| "bytes_of_list (v # vs) =
     (case byte_of v of
        Inl e \<Rightarrow> Inl e
      | Inr c \<Rightarrow> (case bytes_of_list vs of Inl e \<Rightarrow> Inl e | Inr cs \<Rightarrow> Inr (c # cs)))"

fun py_bytes :: "pyval \<Rightarrow> exn + bytes" where
  "py_bytes (PBytes b) = Inr b"
| "py_bytes (PInt n) = (if n < 0 then Inl ValueError else Inr (replicate (nat n) (char_of (0::nat))))"
| "py_bytes (PBool b) = Inr (replicate (if b then 1 else 0) (char_of (0::nat)))"
| "py_bytes (PList xs) = bytes_of_list xs"
| "py_bytes (PStr s) = Inl TypeError"
| "py_bytes PNone = Inl TypeError"

text \<open>\<open>bytes.lower()\<close>: the ASCII letters A to Z (65 to 90) get bit 5 set, which adds 32.\<close>

definition lower_byte :: "char \<Rightarrow> char" where
  "lower_byte c =
     (let n = (of_char c :: nat) in
      if 65 \<le> n \<and> n \<le> 90
      then (case c of Char b0 b1 b2 b3 b4 b5 b6 b7 \<Rightarrow> Char b0 b1 b2 b3 b4 True b6 b7)
      else c)"

definition bytes_lower :: "bytes \<Rightarrow> bytes" where
  "bytes_lower b = map lower_byte b"

text \<open>
  \<open>str.lower()\<close>, exact on ASCII strings; the strings it is applied to here are the
  tokens of a header that wsproto decoded as ASCII.
\<close>

definition str_lower :: "pystr \<Rightarrow> pystr" where
  "str_lower s = map (\<lambda>n. if 65 \<le> n \<and> n \<le> 90 then n + 32 else n) s"

text \<open>\<open>a < b\<close> on str: lexicographic on code points, a proper prefix is smaller.\<close>

fun str_lt :: "pystr \<Rightarrow> pystr \<Rightarrow> bool" where
  "str_lt [] [] = False"
| "str_lt [] (y # ys) = True"
| "str_lt (x # xs) [] = False"
| "str_lt (x # xs) (y # ys) = (x < y \<or> (x = y \<and> str_lt xs ys))"

text \<open>\<open>b.decode("ascii")\<close> raises UnicodeDecodeError on a byte above 127.\<close>

definition decode_ascii :: "bytes \<Rightarrow> exn + pystr" where
  "decode_ascii b =
     (if list_all (\<lambda>c. (of_char c :: nat) < 128) b then Inr (map of_char b)
      else Inl UnicodeDecodeError)"

text \<open>\<open>s.encode()\<close>: UTF-8; a surrogate code point raises UnicodeEncodeError.\<close>

fun utf8 :: "nat \<Rightarrow> (nat list) option" where
  "utf8 n =
     (if n < 128 then Some [n]
      else if n < 2048 then Some [192 + n div 64, 128 + n mod 64]
      else if 55296 \<le> n \<and> n \<le> 57343 then None
      else if n < 65536 then Some [224 + n div 4096, 128 + (n div 64) mod 64, 128 + n mod 64]
      else if n < 1114112 then
        Some [240 + n div 262144, 128 + (n div 4096) mod 64, 128 + (n div 64) mod 64,
              128 + n mod 64]
      else None)"

fun str_encode :: "pystr \<Rightarrow> exn + bytes" where
  "str_encode [] = Inr []"
| "str_encode (n # ns) =
     (case utf8 n of
        None \<Rightarrow> Inl UnicodeEncodeError
      | Some bs \<Rightarrow>
          (case str_encode ns of Inl e \<Rightarrow> Inl e | Inr rest \<Rightarrow> Inr (map char_of bs @ rest)))"

text \<open>\<open>b.partition(b"?")\<close>: the part before the first \<open>?\<close> and the part after it.\<close>

definition partition_qmark :: "bytes \<Rightarrow> bytes \<times> bytes" where
  "partition_qmark b =
     (takeWhile (\<lambda>c. c \<noteq> CHR ''?'') b, drop 1 (dropWhile (\<lambda>c. c \<noteq> CHR ''?'') b))"

section \<open>The wsproto library and the helpers of hypercorn.utils\<close>

text \<open>Events of wsproto.events: data, frame_finished, message_finished; code, reason; payload.\<close>

datatype ws_event =
    TextMessage pystr bool bool
  | BytesMessage bytes bool bool
  | CloseConnection int "pystr option"
  | Ping bytes
  | Pong bytes

datatype ConnectionState =
  CONNECTING | OPEN | REMOTE_CLOSING | LOCAL_CLOSING | WS_CLOSED | REJECTING

datatype ws_extension = PerMessageDeflate

text \<open>\<open>isinstance(event, Message)\<close>: TextMessage and BytesMessage are the Message classes.\<close>

fun is_Message :: "ws_event \<Rightarrow> bool" where
  "is_Message (TextMessage d ff mf) = True"
| "is_Message (BytesMessage d ff mf) = True"
| "is_Message e = False"

fun message_finished :: "ws_event \<Rightarrow> bool" where
  "message_finished (TextMessage d ff mf) = mf"
| "message_finished (BytesMessage d ff mf) = mf"
| "message_finished e = False"

text \<open>\<open>event.response()\<close>: a Pong with the Ping's payload, a close with the same code and reason.\<close>

fun ws_response :: "ws_event \<Rightarrow> ws_event" where
  "ws_response (Ping p) = Pong p"
| "ws_response (CloseConnection c r) = CloseConnection c r"
| "ws_response e = e"

text \<open>wsproto's constants: the close codes of RFC 6455 and the protocol version.\<close>

definition NORMAL_CLOSURE :: int where "NORMAL_CLOSURE = 1000"
definition ABNORMAL_CLOSURE :: int where "ABNORMAL_CLOSURE = 1006"
definition MESSAGE_TOO_BIG :: int where "MESSAGE_TOO_BIG = 1009"
definition WEBSOCKET_VERSION :: bytes where "WEBSOCKET_VERSION = ''13''"

text \<open>
  The code the module calls and does not define is a parameter of the model: wsproto's
  header splitting, accept token, extension negotiation and Connection (\<open>'c\<close> is the
  Connection object's state; \<open>conn_next_event\<close> is one step of the generator
  \<open>Connection.events()\<close>, None when it is exhausted), \<open>urllib.parse.unquote\<close>,
  \<open>build_and_validate_headers\<close> of hypercorn.utils, and \<open>int\<close> applied to a str or bytes.
\<close>

record 'c env =
  split_comma_header :: "bytes \<Rightarrow> exn + pystr list"
  generate_accept_token :: "bytes \<Rightarrow> bytes"
  server_extensions_handshake :: "pystr list \<Rightarrow> ws_extension list \<Rightarrow> bytes option"
  new_connection :: "ws_extension list \<Rightarrow> 'c"
  conn_send :: "'c \<Rightarrow> ws_event \<Rightarrow> exn + (bytes \<times> 'c)"
  conn_receive_data :: "'c \<Rightarrow> bytes option \<Rightarrow> exn + 'c"
  conn_next_event :: "'c \<Rightarrow> (ws_event \<times> 'c) option"
  conn_state :: "'c \<Rightarrow> ConnectionState"
  unquote :: "pystr \<Rightarrow> pystr"
  build_and_validate_headers :: "pyval \<Rightarrow> exn + (bytes \<times> bytes) list"
  int_of_str :: "pystr \<Rightarrow> int option"
  int_of_bytes :: "bytes \<Rightarrow> int option"

text \<open>\<open>int(x)\<close>: None and a list are a TypeError, an unparsable str or bytes a ValueError.\<close>

fun py_int :: "'c env \<Rightarrow> pyval \<Rightarrow> exn + int" where
  "py_int env (PInt n) = Inr n"
| "py_int env (PBool b) = Inr (if b then 1 else 0)"
| "py_int env (PStr s) = (case int_of_str env s of None \<Rightarrow> Inl ValueError | Some n \<Rightarrow> Inr n)"
| "py_int env (PBytes b) = (case int_of_bytes env b of None \<Rightarrow> Inl ValueError | Some n \<Rightarrow> Inr n)"
| "py_int env PNone = Inl TypeError"
| "py_int env (PList xs) = Inl TypeError"

text \<open>
  Modelled from the spec: \<open>suppress_body\<close> of hypercorn.utils is not among the sources.
  The spec: "for HEAD requests and responses whose status code suppresses a body (1xx,
  204, 304), discard body bytes".
\<close>

definition suppress_body :: "pystr \<Rightarrow> int \<Rightarrow> bool" where
  "suppress_body meth status_code =
     (meth = ustr ''HEAD'' \<or> (100 \<le> status_code \<and> status_code < 200)
      \<or> status_code = 204 \<or> status_code = 304)"

section \<open>Handshake\<close>

record Handshake =
  http_version :: pystr
  connection_tokens :: "pystr list option"
  extensions :: "pystr list option"
  key :: "bytes option"
  subprotocols :: "pystr list option"
  upgrade :: "bytes option"
  version :: "bytes option"

text \<open>The loop of \<open>Handshake.__init__\<close> over the headers; a later header replaces an earlier one.\<close>

fun Handshake_headers :: "'c env \<Rightarrow> (bytes \<times> bytes) list \<Rightarrow> Handshake \<Rightarrow> exn + Handshake" where
  "Handshake_headers env [] h = Inr h"
| "Handshake_headers env ((name, v) # rest) h =
     (let name = bytes_lower name in
      if name = ''connection'' then
        (case split_comma_header env v of
           Inl e \<Rightarrow> Inl e
         | Inr ts \<Rightarrow> Handshake_headers env rest (h\<lparr>connection_tokens := Some ts\<rparr>))
      else if name = ''sec-websocket-extensions'' then
        (case split_comma_header env v of
           Inl e \<Rightarrow> Inl e
         | Inr ts \<Rightarrow> Handshake_headers env rest (h\<lparr>extensions := Some ts\<rparr>))
      else if name = ''sec-websocket-key'' then
        Handshake_headers env rest (h\<lparr>key := Some v\<rparr>)
      else if name = ''sec-websocket-protocol'' then
        (case split_comma_header env v of
           Inl e \<Rightarrow> Inl e
         | Inr ts \<Rightarrow> Handshake_headers env rest (h\<lparr>subprotocols := Some ts\<rparr>))
      else if name = ''sec-websocket-version'' then
        Handshake_headers env rest (h\<lparr>version := Some v\<rparr>)
      else if name = ''upgrade'' then
        Handshake_headers env rest (h\<lparr>upgrade := Some v\<rparr>)
      else Handshake_headers env rest h)"

definition Handshake_init :: "'c env \<Rightarrow> (bytes \<times> bytes) list \<Rightarrow> pystr \<Rightarrow> exn + Handshake" where
  "Handshake_init env headers hv =
     Handshake_headers env headers
       \<lparr>http_version = hv, connection_tokens = None, extensions = None, key = None,
        subprotocols = None, upgrade = None, version = None\<rparr>"

text \<open>
  \<open>Handshake.is_valid\<close>. \<open>self.upgrade.lower()\<close> is an AttributeError when no upgrade
  header was seen; the last test is shared by every version from 1.1 on.
\<close>

definition version_is_valid :: "Handshake \<Rightarrow> exn + bool" where
  "version_is_valid h = (if version h \<noteq> Some WEBSOCKET_VERSION then Inr False else Inr True)"

definition is_valid :: "Handshake \<Rightarrow> exn + bool" where
  "is_valid h =
     (if str_lt (http_version h) (ustr ''1.1'') then Inr False
      else if http_version h = ustr ''1.1'' then
        (if key h = None then Inr False
         else if (case connection_tokens h of
                    None \<Rightarrow> True
                  | Some ts \<Rightarrow> \<not> list_ex (\<lambda>token. str_lower token = ustr ''upgrade'') ts)
         then Inr False
         else (case upgrade h of
                 None \<Rightarrow> Inl AttributeError
               | Some u \<Rightarrow>
                   if bytes_lower u \<noteq> ''websocket'' then Inr False else version_is_valid h))
      else version_is_valid h)"

text \<open>
  \<open>Handshake.accept\<close>. \<open>subprotocol not in self.subprotocols\<close> is a TypeError when
  \<open>self.subprotocols\<close> is None; only a str can be equal to one of the offered strs. The
  negotiation of extensions is behind \<open>if False and ...\<close>, as in the source.
\<close>

definition accept_subprotocol :: "Handshake \<Rightarrow> pyval \<Rightarrow> exn + (bytes \<times> bytes) list" where
  "accept_subprotocol h subprotocol =
     (if subprotocol \<noteq> PNone then
        (case subprotocols h of
           None \<Rightarrow> Inl TypeError
         | Some offered \<Rightarrow>
             if \<not> list_ex (\<lambda>s. PStr s = subprotocol) offered then Inl InvalidSubprotocol
             else (case subprotocol of
                     PStr s \<Rightarrow>
                       (case str_encode s of
                          Inl e \<Rightarrow> Inl e
                        | Inr b \<Rightarrow> Inr [(''sec-websocket-protocol'', b)])
                   | _ \<Rightarrow> Inl AttributeError))
      else Inr [])"

definition accept ::
  "'c env \<Rightarrow> Handshake \<Rightarrow> pyval \<Rightarrow> exn + (int \<times> (bytes \<times> bytes) list \<times> 'c)" where
  "accept env h subprotocol =
     (case accept_subprotocol h subprotocol of
        Inl e \<Rightarrow> Inl e
      | Inr headers0 \<Rightarrow>
          (let exts = [PerMessageDeflate];
               accepts = (if False \<and> extensions h \<noteq> None
                          then server_extensions_handshake env
                                 (case extensions h of Some xs \<Rightarrow> xs | None \<Rightarrow> []) exts
                          else None);
               headers1 = (case accepts of
                             None \<Rightarrow> headers0
                           | Some a \<Rightarrow>
                               if a \<noteq> [] then headers0 @ [(''sec-websocket-extensions'', a)]
                               else headers0);
               headers2 = (case key h of
                             None \<Rightarrow> headers1
                           | Some k \<Rightarrow>
                               headers1 @ [(''sec-websocket-accept'', generate_accept_token env k)])
           in if http_version h = ustr ''1.1''
              then Inr (101, headers2 @ [(''upgrade'', ''WebSocket''), (''connection'', ''Upgrade'')],
                        new_connection env exts)
              else Inr (200, headers2, new_connection env exts)))"

section \<open>WebsocketBuffer\<close>

datatype bufval = BufText pystr | BufBytes bytes

record WebsocketBuffer =
  buf_value :: "bufval option"
  max_length :: int

definition buf_len :: "bufval \<Rightarrow> int" where
  "buf_len v = (case v of BufText t \<Rightarrow> int (length t) | BufBytes b \<Rightarrow> int (length b))"

text \<open>
  \<open>WebsocketBuffer.extend\<close>: the buffer after the call and the exception raised, if any.
  The data is appended before the length is tested, so the buffer holds the oversized
  value when FrameTooLarge is raised. Adding bytes to a str (or a str to bytes) is a
  TypeError, and an event without \<open>data\<close> an AttributeError.
\<close>

definition buffer_extend :: "WebsocketBuffer \<Rightarrow> ws_event \<Rightarrow> exn option \<times> WebsocketBuffer" where
  "buffer_extend b ev =
     (let v0 = (case buf_value b of
                  None \<Rightarrow> (case ev of TextMessage d ff mf \<Rightarrow> BufText [] | _ \<Rightarrow> BufBytes [])
                | Some v \<Rightarrow> v);
          b0 = b\<lparr>buf_value := Some v0\<rparr>;
          grown = (case (v0, ev) of
                     (BufText t, TextMessage d ff mf) \<Rightarrow> Inr (BufText (t @ d))
                   | (BufBytes x, BytesMessage d ff mf) \<Rightarrow> Inr (BufBytes (x @ d))
                   | (v, TextMessage d ff mf) \<Rightarrow> Inl TypeError
                   | (v, BytesMessage d ff mf) \<Rightarrow> Inl TypeError
                   | (v, e) \<Rightarrow> Inl AttributeError)
      in case grown of
           Inl e \<Rightarrow> (Some e, b0)
         | Inr v \<Rightarrow>
             if buf_len v > max_length b then (Some FrameTooLarge, b\<lparr>buf_value := Some v\<rparr>)
             else (None, b\<lparr>buf_value := Some v\<rparr>))"

definition buffer_clear :: "WebsocketBuffer \<Rightarrow> WebsocketBuffer" where
  "buffer_clear b = b\<lparr>buf_value := None\<rparr>"

definition to_message :: "WebsocketBuffer \<Rightarrow> message" where
  "to_message b =
     [(''type'', PStr (ustr ''websocket.receive'')),
      (''bytes'', (case buf_value b of Some (BufBytes x) \<Rightarrow> PBytes x | _ \<Rightarrow> PNone)),
      (''text'', (case buf_value b of Some (BufText t) \<Rightarrow> PStr t | _ \<Rightarrow> PNone))]"

section \<open>WSStream\<close>

text \<open>
  The events of hypercorn/protocol/events.py, with the fields the tests construct them
  with: a Request has stream_id, headers, http_version, the request method and raw_path.
\<close>

datatype event =
    Request int "(bytes \<times> bytes) list" pystr pystr bytes
  | Body int bytes
  | Data int bytes
  | EndBody int
  | EndData int
  | Response int int "(bytes \<times> bytes) list"
  | StreamClosed int

text \<open>
  The options of Config that the module reads. Modelled from the spec: the option that
  enables PerMessage-Deflate ("offer the PerMessage-Deflate extension only when enabled
  in config") is \<open>permessage_deflate\<close>; Config is not among the sources, and the module
  reads no such option.
\<close>

record Config =
  websocket_max_message_size :: int
  root_path :: pystr
  permessage_deflate :: bool

text \<open>
  The scope dict handed to the application, without its three constant entries (type,
  asgi, extensions).
\<close>

record Scope =
  scope_scheme :: pystr
  scope_http_version :: pystr
  scope_path :: pystr
  scope_raw_path :: bytes
  scope_query_string :: bytes
  scope_root_path :: pystr
  scope_headers :: "(bytes \<times> bytes) list"
  scope_client :: "(pystr \<times> int) option"
  scope_server :: "(pystr \<times> int) option"
  scope_subprotocols :: "pystr list"

text \<open>
  What the stream does to its collaborators, in order: a call of \<open>self.send\<close>, of
  \<open>self.spawn_app\<close>, of \<open>self.app_put\<close>, of the access logger.
\<close>

datatype effect =
    Send event
  | SpawnApp Scope
  | AppPut message
  | AccessLog Scope message

datatype app_callable = AppCallable

text \<open>
  The attributes of a WSStream. An attribute that \<open>__init__\<close> only declares
  (response, scope, connection, handshake) is None until it is assigned, and reading it
  then is an AttributeError. \<open>start_time\<close> is assigned on the line after \<open>scope\<close> and
  read only after \<open>scope\<close>; time is not modelled. \<open>trace\<close> records the effects.
\<close>

record 'c WSStream =
  app_put :: "app_callable option"
  buffer :: WebsocketBuffer
  client :: "(pystr \<times> int) option"
  closed :: bool
  config :: Config
  response :: "message option"
  scope :: "Scope option"
  scheme :: pystr
  server :: "(pystr \<times> int) option"
  state :: ASGIWebsocketState
  stream_id :: int
  connection :: "'c option"
  handshake :: "Handshake option"
  trace :: "effect list"

definition WSStream_init ::
  "Config \<Rightarrow> bool \<Rightarrow> (pystr \<times> int) option \<Rightarrow> (pystr \<times> int) option \<Rightarrow> int \<Rightarrow> 'c WSStream" where
  "WSStream_init cfg ssl cl srv sid =
     \<lparr>app_put = None,
      buffer = \<lparr>buf_value = None, max_length = websocket_max_message_size cfg\<rparr>,
      client = cl, closed = False, config = cfg, response = None, scope = None,
      scheme = (if ssl then ustr ''wss'' else ustr ''ws''),
      server = srv, state = HANDSHAKE, stream_id = sid, connection = None,
      handshake = None, trace = []\<rparr>"

subsection \<open>Statements\<close>

text \<open>
  A method body is a function from the stream to the exception raised, if any, and the
  stream as the body left it. \<open>seq\<close> runs a second statement unless the first raised.
\<close>

type_synonym 'c act = "'c WSStream \<Rightarrow> exn option \<times> 'c WSStream"

definition skip :: "'c act" where
  "skip s = (None, s)"

definition raise :: "exn \<Rightarrow> 'c act" where
  "raise e s = (Some e, s)"

definition seq :: "'c act \<Rightarrow> 'c act \<Rightarrow> 'c act" where
  "seq f g s = (case f s of (None, s') \<Rightarrow> g s' | (Some e, s') \<Rightarrow> (Some e, s'))"

definition send :: "event \<Rightarrow> 'c act" where
  "send ev s = (None, s\<lparr>trace := trace s @ [Send ev]\<rparr>)"

definition set_state :: "ASGIWebsocketState \<Rightarrow> 'c act" where
  "set_state st s = (None, s\<lparr>state := st\<rparr>)"

text \<open>\<open>await self.app_put(msg)\<close>: calling None is a TypeError.\<close>

definition call_app_put :: "message \<Rightarrow> 'c act" where
  "call_app_put msg s =
     (case app_put s of
        None \<Rightarrow> (Some TypeError, s)
      | Some f \<Rightarrow> (None, s\<lparr>trace := trace s @ [AppPut msg]\<rparr>))"

text \<open>\<open>self.config.access_logger.access(self.scope, response, ...)\<close>.\<close>

definition access_log :: "message \<Rightarrow> 'c act" where
  "access_log resp s =
     (case scope s of
        None \<Rightarrow> (Some AttributeError, s)
      | Some sc \<Rightarrow> (None, s\<lparr>trace := trace s @ [AccessLog sc resp]\<rparr>))"

definition status_summary :: "int \<Rightarrow> message" where
  "status_summary status_code = [(''status'', PInt status_code), (''headers'', PList [])]"

subsection \<open>The private methods\<close>

definition send_error_response :: "int \<Rightarrow> 'c act" where
  "send_error_response status_code s =
     seq (send (Response (stream_id s) status_code
                  [(''content-length'', ''0''), (''connection'', ''close'')]))
       (seq (send (EndBody (stream_id s)))
            (access_log (status_summary status_code))) s"

definition send_wsproto_event :: "'c env \<Rightarrow> ws_event \<Rightarrow> 'c act" where
  "send_wsproto_event env ev s =
     (case connection s of
        None \<Rightarrow> (Some AttributeError, s)
      | Some c \<Rightarrow>
          (case conn_send env c ev of
             Inl e \<Rightarrow> (Some e, s)
           | Inr (d, c') \<Rightarrow> send (Data (stream_id s) d) (s\<lparr>connection := Some c'\<rparr>)))"

text \<open>
  \<open>_send_rejection\<close>. \<open>suppress_body\<close> compares the status with 100, a TypeError on a
  value that is not a number; \<open>int(status)\<close> then returns that number.
\<close>

definition send_rejection :: "'c env \<Rightarrow> message \<Rightarrow> 'c act" where
  "send_rejection env msg s =
     (case response s of
        None \<Rightarrow> (Some AttributeError, s)
      | Some resp \<Rightarrow>
          (case getitem resp ''status'' of
             Inl e \<Rightarrow> (Some e, s)
           | Inr st \<Rightarrow>
               (case as_int st of
                  Inl e \<Rightarrow> (Some e, s)
                | Inr status_code \<Rightarrow>
                    (let body_suppressed = suppress_body (ustr ''GET'') status_code in
                     seq (\<lambda>s. if state s = HANDSHAKE then
                                 (case getitem resp ''headers'' of
                                    Inl e \<Rightarrow> (Some e, s)
                                  | Inr hv \<Rightarrow>
                                      (case build_and_validate_headers env hv of
                                         Inl e \<Rightarrow> (Some e, s)
                                       | Inr headers \<Rightarrow>
                                           seq (send (Response (stream_id s) status_code headers))
                                               (set_state RESPONSE) s))
                               else (None, s))
                       (seq (\<lambda>s. if \<not> body_suppressed then
                                    (case py_bytes (get_default msg ''body'' (PBytes [])) of
                                       Inl e \<Rightarrow> (Some e, s)
                                     | Inr b \<Rightarrow> send (Body (stream_id s) b) s)
                                  else (None, s))
                            (\<lambda>s. if \<not> truthy (get_default msg ''more_body'' (PBool False)) then
                                    seq (send (EndBody (stream_id s)))
                                      (seq (set_state HTTPCLOSED) (access_log resp)) s
                                  else (None, s))) s))))"

subsection \<open>app_send\<close>

text \<open>
  The branch for websocket.accept: the state is assigned before \<open>self.handshake.accept\<close>
  is called, so it is CONNECTED also when that call raises.
\<close>

definition app_send_accept :: "'c env \<Rightarrow> message \<Rightarrow> 'c act" where
  "app_send_accept env msg s =
     (let s1 = s\<lparr>state := CONNECTED\<rparr> in
      case handshake s1 of
        None \<Rightarrow> (Some AttributeError, s1)
      | Some h \<Rightarrow>
          (case accept env h (get_default msg ''subprotocol'' PNone) of
             Inl e \<Rightarrow> (Some e, s1)
           | Inr (status_code, headers, conn) \<Rightarrow>
               seq (send (Response (stream_id s1) status_code headers))
                   (access_log (status_summary status_code))
                   (s1\<lparr>connection := Some conn\<rparr>)))"

text \<open>The branch for websocket.send: the wsproto event built from the message.\<close>

definition send_event_of :: "message \<Rightarrow> exn + ws_event" where
  "send_event_of msg =
     (if get_default msg ''bytes'' PNone \<noteq> PNone then
        (case py_bytes (get_default msg ''bytes'' PNone) of
           Inl e \<Rightarrow> Inl e
         | Inr b \<Rightarrow> Inr (BytesMessage b True True))
      else
        (case getitem msg ''text'' of
           Inl e \<Rightarrow> Inl e
         | Inr (PStr t) \<Rightarrow> Inr (TextMessage t True True)
         | Inr v \<Rightarrow> Inl TypeError))"

definition app_send_send :: "'c env \<Rightarrow> message \<Rightarrow> 'c act" where
  "app_send_send env msg s =
     (case send_event_of msg of
        Inl e \<Rightarrow> (Some e, s)
      | Inr ev \<Rightarrow> send_wsproto_event env ev s)"

definition app_send_close :: "'c env \<Rightarrow> message \<Rightarrow> 'c act" where
  "app_send_close env msg s =
     (case py_int env (get_default msg ''code'' (PInt NORMAL_CLOSURE)) of
        Inl e \<Rightarrow> (Some e, s)
      | Inr c \<Rightarrow>
          seq (send_wsproto_event env (CloseConnection c None))
            (seq (\<lambda>s. send (EndData (stream_id s)) s) (set_state CLOSED)) s)"

definition app_send :: "'c env \<Rightarrow> message option \<Rightarrow> 'c act" where
  "app_send env message s =
     (if closed s then (None, s)
      else case message of
        None \<Rightarrow>
          seq (\<lambda>s. if state s = HANDSHAKE then
                      seq (send_error_response 500) (access_log (status_summary 500)) s
                    else if state s = CONNECTED then
                      send_wsproto_event env (CloseConnection ABNORMAL_CLOSURE None) s
                    else (None, s))
              (\<lambda>s. send (StreamClosed (stream_id s)) s) s
      | Some msg \<Rightarrow>
          (case getitem msg ''type'' of
             Inl e \<Rightarrow> (Some e, s)
           | Inr ty \<Rightarrow>
               if ty = PStr (ustr ''websocket.accept'') \<and> state s = HANDSHAKE then
                 app_send_accept env msg s
               else if ty = PStr (ustr ''websocket.http.response.start'') \<and> state s = HANDSHAKE then
                 (None, s\<lparr>response := Some msg\<rparr>)
               else if ty = PStr (ustr ''websocket.http.response.body'')
                       \<and> (state s = HANDSHAKE \<or> state s = RESPONSE) then
                 send_rejection env msg s
               else if ty = PStr (ustr ''websocket.send'') \<and> state s = CONNECTED then
                 app_send_send env msg s
               else if ty = PStr (ustr ''websocket.close'') \<and> state s = HANDSHAKE then
                 seq (send_error_response 403) (set_state HTTPCLOSED) s
               else if ty = PStr (ustr ''websocket.close'') then
                 app_send_close env msg s
               else (Some (UnexpectedMessage (state s) ty), s)))"

subsection \<open>handle\<close>

text \<open>
  One turn of the loop of \<open>_handle_events\<close> on the event the generator yielded: the
  loop goes on, is left by \<open>break\<close>, or an exception leaves the method.
\<close>

datatype loop_result = Continue | Break | Raised exn

definition continue_after :: "exn option \<times> 'c WSStream \<Rightarrow> loop_result \<times> 'c WSStream" where
  "continue_after r = (case r of (None, s) \<Rightarrow> (Continue, s) | (Some e, s) \<Rightarrow> (Raised e, s))"

definition break_after :: "exn option \<times> 'c WSStream \<Rightarrow> loop_result \<times> 'c WSStream" where
  "break_after r = (case r of (None, s) \<Rightarrow> (Break, s) | (Some e, s) \<Rightarrow> (Raised e, s))"

definition handle_ws_event :: "'c env \<Rightarrow> ws_event \<Rightarrow> 'c WSStream \<Rightarrow> loop_result \<times> 'c WSStream" where
  "handle_ws_event env ev s =
     (if is_Message ev then
        (case buffer_extend (buffer s) ev of
           (Some FrameTooLarge, b) \<Rightarrow>
             break_after
               (send_wsproto_event env (CloseConnection MESSAGE_TOO_BIG None) (s\<lparr>buffer := b\<rparr>))
         | (Some e, b) \<Rightarrow> (Raised e, s\<lparr>buffer := b\<rparr>)
         | (None, b) \<Rightarrow>
             if message_finished ev then
               continue_after
                 (seq (call_app_put (to_message b))
                      (\<lambda>s. (None, s\<lparr>buffer := buffer_clear (buffer s)\<rparr>)) (s\<lparr>buffer := b\<rparr>))
             else (Continue, s\<lparr>buffer := b\<rparr>))
      else case ev of
        Ping p \<Rightarrow> continue_after (send_wsproto_event env (ws_response ev) s)
      | CloseConnection c r \<Rightarrow>
          continue_after
            (seq (\<lambda>s. case connection s of
                        None \<Rightarrow> (Some AttributeError, s)
                      | Some conn \<Rightarrow>
                          if conn_state env conn = REMOTE_CLOSING
                          then send_wsproto_event env (ws_response ev) s
                          else (None, s))
                 (\<lambda>s. send (StreamClosed (stream_id s)) s) s)
      | _ \<Rightarrow> (Continue, s))"

text \<open>
  \<open>_handle_events\<close>: the loop over \<open>self.connection.events()\<close>. The generator is
  advanced on the Connection object that the loop's sends change too. The result is
  None when the generator never ends.
\<close>

partial_function (option) handle_events ::
  "'c env \<Rightarrow> 'c WSStream \<Rightarrow> (exn option \<times> 'c WSStream) option" where
  "handle_events env s =
     (case connection s of
        None \<Rightarrow> Some (Some AttributeError, s)
      | Some c \<Rightarrow>
          (case conn_next_event env c of
             None \<Rightarrow> Some (None, s)
           | Some (ev, c') \<Rightarrow>
               (case handle_ws_event env ev (s\<lparr>connection := Some c'\<rparr>) of
                  (Continue, s') \<Rightarrow> handle_events env s'
                | (Break, s') \<Rightarrow> Some (None, s')
                | (Raised e, s') \<Rightarrow> Some (Some e, s'))))"

declare handle_events.simps [code]

text \<open>The scope dict that \<open>handle\<close> builds for a Request.\<close>

definition request_scope ::
  "'c env \<Rightarrow> 'c WSStream \<Rightarrow> (bytes \<times> bytes) list \<Rightarrow> pystr \<Rightarrow> pystr \<Rightarrow> bytes \<Rightarrow> bytes
     \<Rightarrow> Handshake \<Rightarrow> Scope" where
  "request_scope env s headers hv p path query_string h =
     \<lparr>scope_scheme = scheme s, scope_http_version = hv,
      scope_path = unquote env p, scope_raw_path = path,
      scope_query_string = query_string,
      scope_root_path = root_path (config s),
      scope_headers = headers, scope_client = client s,
      scope_server = server s,
      scope_subprotocols = (case subprotocols h of None \<Rightarrow> [] | Some sps \<Rightarrow> sps)\<rparr>"

text \<open>
  The Request branch of \<open>handle\<close>: the handshake is parsed, the path is decoded for
  the scope, and only then is the handshake validated.
\<close>

definition handle_request ::
  "'c env \<Rightarrow> (bytes \<times> bytes) list \<Rightarrow> pystr \<Rightarrow> bytes \<Rightarrow> 'c act" where
  "handle_request env headers hv raw_path s =
     (case Handshake_init env headers hv of
        Inl e \<Rightarrow> (Some e, s)
      | Inr h \<Rightarrow>
          (let s1 = s\<lparr>handshake := Some h\<rparr>;
               path = fst (partition_qmark raw_path);
               query_string = snd (partition_qmark raw_path)
           in case decode_ascii path of
                Inl e \<Rightarrow> (Some e, s1)
              | Inr p \<Rightarrow>
                  (let sc = request_scope env s1 headers hv p path query_string h;
                       s2 = s1\<lparr>scope := Some sc\<rparr>
                   in case is_valid h of
                        Inl e \<Rightarrow> (Some e, s2)
                      | Inr ok \<Rightarrow>
                          if \<not> ok then send_error_response 400 s2
                          else seq (\<lambda>s. (None, s\<lparr>app_put := Some AppCallable,
                                                  trace := trace s @ [SpawnApp sc]\<rparr>))
                                   (call_app_put [(''type'', PStr (ustr ''websocket.connect''))])
                                   s2)))"

text \<open>The Body and Data branch: an empty chunk is passed to wsproto as None.\<close>

definition handle_data :: "'c env \<Rightarrow> bytes \<Rightarrow> 'c WSStream \<Rightarrow> (exn option \<times> 'c WSStream) option" where
  "handle_data env d s =
     (case connection s of
        None \<Rightarrow> Some (Some AttributeError, s)
      | Some c \<Rightarrow>
          (case conn_receive_data env c (if d = [] then None else Some d) of
             Inl e \<Rightarrow> Some (Some e, s)
           | Inr c' \<Rightarrow> handle_events env (s\<lparr>connection := Some c'\<rparr>)))"

definition handle :: "'c env \<Rightarrow> event \<Rightarrow> 'c WSStream \<Rightarrow> (exn option \<times> 'c WSStream) option" where
  "handle env ev s =
     (case ev of
        Request sid headers hv meth raw_path \<Rightarrow> Some (handle_request env headers hv raw_path s)
      | Body sid d \<Rightarrow> handle_data env d s
      | Data sid d \<Rightarrow> handle_data env d s
      | StreamClosed sid \<Rightarrow>
          (if app_put s \<noteq> None then
             Some (seq (call_app_put [(''type'', PStr (ustr ''websocket.disconnect''))])
                       (\<lambda>s. (None, s\<lparr>closed := True\<rparr>)) s)
           else Some (None, s))
      | _ \<Rightarrow> Some (None, s))"

section \<open>A concrete library\<close>

text \<open>
  An instance of the parameters, on which the model can be run. A Connection is its
  state and the events its generator has yet to yield. Headers are split at commas,
  decoded as ASCII and stripped; a connection refuses to send unless it is open, or
  closing on the remote side for a close frame; a frame is written as one tag byte and
  the payload, and the accept token as the key and the GUID of RFC 6455, both without
  the encodings of the real library. Received bytes are taken as one complete binary
  message, and the end of the input as an abnormal close. No extension is negotiated,
  no percent escape is decoded, headers must be a list of pairs of bytes, and only
  digits are parsed.
\<close>

type_synonym ref_conn = "ConnectionState \<times> ws_event list"

fun split_on :: "char \<Rightarrow> bytes \<Rightarrow> bytes list" where
  "split_on c [] = [[]]"
| "split_on c (x # xs) =
     (if x = c then [] # split_on c xs
      else (case split_on c xs of [] \<Rightarrow> [[x]] | p # ps \<Rightarrow> (x # p) # ps))"

definition is_space :: "nat \<Rightarrow> bool" where
  "is_space n = ((9 \<le> n \<and> n \<le> 13) \<or> (28 \<le> n \<and> n \<le> 32))"

definition str_strip :: "pystr \<Rightarrow> pystr" where
  "str_strip s = rev (dropWhile is_space (rev (dropWhile is_space s)))"

fun decode_pieces :: "bytes list \<Rightarrow> exn + pystr list" where
  "decode_pieces [] = Inr []"
| "decode_pieces (p # ps) =
     (case decode_ascii p of
        Inl e \<Rightarrow> Inl e
      | Inr t \<Rightarrow> (case decode_pieces ps of Inl e \<Rightarrow> Inl e | Inr ts \<Rightarrow> Inr (str_strip t # ts)))"

fun ref_frame :: "ws_event \<Rightarrow> bytes" where
  "ref_frame (TextMessage t ff mf) =
     CHR ''T'' # (case str_encode t of Inl e \<Rightarrow> [] | Inr b \<Rightarrow> b)"
| "ref_frame (BytesMessage b ff mf) = CHR ''B'' # b"
| "ref_frame (CloseConnection c r) =
     [CHR ''C'', char_of (nat (c div 256)), char_of (nat (c mod 256))]"
| "ref_frame (Ping p) = CHR ''P'' # p"
| "ref_frame (Pong p) = CHR ''Q'' # p"

fun ref_send :: "ref_conn \<Rightarrow> ws_event \<Rightarrow> exn + (bytes \<times> ref_conn)" where
  "ref_send (st, q) (CloseConnection c r) =
     (if st = OPEN then Inr (ref_frame (CloseConnection c r), (LOCAL_CLOSING, q))
      else if st = REMOTE_CLOSING then Inr (ref_frame (CloseConnection c r), (WS_CLOSED, q))
      else Inl LocalProtocolError)"
| "ref_send (st, q) ev =
     (if st = OPEN then Inr (ref_frame ev, (st, q)) else Inl LocalProtocolError)"

fun ref_next_event :: "ref_conn \<Rightarrow> (ws_event \<times> ref_conn) option" where
  "ref_next_event (st, []) = None"
| "ref_next_event (st, CloseConnection c r # q) =
     Some (CloseConnection c r, (if st = LOCAL_CLOSING then WS_CLOSED else REMOTE_CLOSING, q))"
| "ref_next_event (st, ev # q) = Some (ev, (st, q))"

fun ref_receive_data :: "ref_conn \<Rightarrow> bytes option \<Rightarrow> exn + ref_conn" where
  "ref_receive_data (st, q) None = Inr (WS_CLOSED, q @ [CloseConnection ABNORMAL_CLOSURE None])"
| "ref_receive_data (st, q) (Some d) =
     (if st = OPEN \<or> st = LOCAL_CLOSING then Inr (st, q @ [BytesMessage d True True])
      else Inl LocalProtocolError)"

fun ref_headers :: "pyval \<Rightarrow> exn + (bytes \<times> bytes) list" where
  "ref_headers (PList []) = Inr []"
| "ref_headers (PList (PList [PBytes n, PBytes v] # rest)) =
     (case ref_headers (PList rest) of
        Inl e \<Rightarrow> Inl e
      | Inr hs \<Rightarrow> Inr ((bytes_lower n, v) # hs))"
| "ref_headers v = Inl TypeError"

fun digits_value :: "nat list \<Rightarrow> nat \<Rightarrow> nat option" where
  "digits_value [] acc = Some acc"
| "digits_value (d # ds) acc =
     (if 48 \<le> d \<and> d \<le> 57 then digits_value ds (10 * acc + (d - 48)) else None)"

definition ref_int :: "nat list \<Rightarrow> int option" where
  "ref_int ds = (if ds = [] then None else map_option int (digits_value ds 0))"

definition ref_env :: "ref_conn env" where
  "ref_env =
     \<lparr>split_comma_header = (\<lambda>v. decode_pieces (split_on CHR '','' v)),
      generate_accept_token = (\<lambda>k. k @ ''258EAFA5-E914-47DA-95CA-C5AB0DC85B11''),
      server_extensions_handshake = (\<lambda>offered exts. None),
      new_connection = (\<lambda>exts. (OPEN, [])),
      conn_send = ref_send,
      conn_receive_data = ref_receive_data,
      conn_next_event = ref_next_event,
      conn_state = fst,
      unquote = (\<lambda>p. p),
      build_and_validate_headers = ref_headers,
      int_of_str = ref_int,
      int_of_bytes = (\<lambda>b. ref_int (map of_char b))\<rparr>"

text \<open>A configuration, a stream and a handshake request to run the model on.\<close>

definition example_config :: Config where
  "example_config = \<lparr>websocket_max_message_size = 4, root_path = [], permessage_deflate = True\<rparr>"

definition example_stream :: "ref_conn WSStream" where
  "example_stream = WSStream_init example_config False None None 1"

definition example_headers :: "(bytes \<times> bytes) list" where
  "example_headers =
     [(''host'', ''hypercorn''), (''upgrade'', ''WebSocket''), (''connection'', ''keep-alive, Upgrade''),
      (''sec-websocket-key'', ''dGhlIHNhbXBsZSBub25jZQ==''), (''sec-websocket-version'', ''13''),
      (''sec-websocket-protocol'', ''chat, superchat''),
      (''sec-websocket-extensions'', ''permessage-deflate'')]"

definition example_request :: event where
  "example_request = Request 1 example_headers (ustr ''1.1'') (ustr ''GET'') ''/chat?room=1''"

text \<open>The stream after the example request, after a StreamClosed event on top of it.\<close>

definition example_spawned :: "ref_conn WSStream" where
  "example_spawned =
     (case handle ref_env example_request example_stream of
        Some (r, s) \<Rightarrow> s
      | None \<Rightarrow> example_stream)"

definition example_closed :: "ref_conn WSStream" where
  "example_closed =
     (case handle ref_env (StreamClosed 1) example_spawned of
        Some (r, s) \<Rightarrow> s
      | None \<Rightarrow> example_stream)"

definition example_handshake :: Handshake where
  "example_handshake =
     (case Handshake_init ref_env example_headers (ustr ''1.1'') of
        Inr h \<Rightarrow> h
      | Inl e \<Rightarrow> \<lparr>http_version = [], connection_tokens = None, extensions = None, key = None,
                   subprotocols = None, upgrade = None, version = None\<rparr>)"

definition example_scope :: Scope where
  "example_scope =
     (case scope example_spawned of
        Some sc \<Rightarrow> sc
      | None \<Rightarrow> \<lparr>scope_scheme = [], scope_http_version = [], scope_path = [],
                   scope_raw_path = [], scope_query_string = [], scope_root_path = [],
                   scope_headers = [], scope_client = None, scope_server = None,
                   scope_subprotocols = []\<rparr>)"

definition accept_chat :: message where
  "accept_chat =
     [(''type'', PStr (ustr ''websocket.accept'')), (''subprotocol'', PStr (ustr ''chat''))]"

text \<open>Some Response in the trace carries a sec-websocket-extensions header.\<close>

definition offers_extensions :: "effect list \<Rightarrow> bool" where
  "offers_extensions tr =
     list_ex (\<lambda>e. case e of
                     Send (Response sid code hs) \<Rightarrow>
                       list_ex (\<lambda>(n, v). n = ''sec-websocket-extensions'') hs
                   | _ \<Rightarrow> False) tr"

definition example_connected :: "ref_conn WSStream" where
  "example_connected = snd (app_send ref_env (Some accept_chat) example_spawned)"

text \<open>A rejection with status 204: the start message, the stream after it, a final body.\<close>

definition reject_start :: message where
  "reject_start =
     [(''type'', PStr (ustr ''websocket.http.response.start'')), (''status'', PInt 204),
      (''headers'', PList [PList [PBytes ''X-Reason'', PBytes ''closed'']])]"

definition example_rejecting :: "ref_conn WSStream" where
  "example_rejecting = snd (app_send ref_env (Some reject_start) example_spawned)"

definition reject_body :: message where
  "reject_body =
     [(''type'', PStr (ustr ''websocket.http.response.body'')), (''body'', PBytes ''no'')]"

text \<open>
  Three handshake requests: one for version 12 of the protocol, one like it without an
  upgrade header, and one over HTTP/2 whose path has a byte above 127.
\<close>

definition old_version_headers :: "(bytes \<times> bytes) list" where
  "old_version_headers =
     [(''upgrade'', ''websocket''), (''connection'', ''Upgrade''),
      (''sec-websocket-key'', ''dGhlIHNhbXBsZSBub25jZQ==''), (''sec-websocket-version'', ''12'')]"

definition old_version_request :: event where
  "old_version_request = Request 1 old_version_headers (ustr ''1.1'') (ustr ''GET'') ''/chat''"

definition old_version_handshake :: Handshake where
  "old_version_handshake =
     \<lparr>http_version = ustr ''1.1'', connection_tokens = Some [ustr ''Upgrade''],
      extensions = None, key = Some ''dGhlIHNhbXBsZSBub25jZQ=='', subprotocols = None,
      upgrade = Some ''websocket'', version = Some ''12''\<rparr>"

definition old_version_scope :: Scope where
  "old_version_scope =
     request_scope ref_env example_stream old_version_headers (ustr ''1.1'') (ustr ''/chat'')
       ''/chat'' [] old_version_handshake"

definition no_upgrade_request :: event where
  "no_upgrade_request =
     Request 1
       [(''connection'', ''Upgrade''), (''sec-websocket-key'', ''dGhlIHNhbXBsZSBub25jZQ==''),
        (''sec-websocket-version'', ''12'')]
       (ustr ''1.1'') (ustr ''GET'') ''/chat''"

definition bad_path_request :: event where
  "bad_path_request =
     Request 1 [(''sec-websocket-version'', ''12'')] (ustr ''2'') (ustr ''CONNECT'')
       [CHR ''/'', CHR 0xFF]"

text \<open>The connected stream with one complete five-byte message waiting in wsproto.\<close>

definition example_receiving :: "ref_conn WSStream" where
  "example_receiving =
     example_connected\<lparr>connection := Some (OPEN, [BytesMessage ''hello'' True True])\<rparr>"

text \<open>
  An acceptance with a subprotocol the example client did not offer, and the stream it
  leaves behind.
\<close>

definition accept_graphql :: message where
  "accept_graphql =
     [(''type'', PStr (ustr ''websocket.accept'')), (''subprotocol'', PStr (ustr ''graphql''))]"

definition example_failed_accept :: "ref_conn WSStream" where
  "example_failed_accept = snd (app_send ref_env (Some accept_graphql) example_spawned)"

text \<open>
  A websocket.send with bytes, and the connected stream after the five-byte message
  that is too big: the close with code 1009 was sent and the state is still CONNECTED.
\<close>

definition send_abc :: message where
  "send_abc = [(''type'', PStr (ustr ''websocket.send'')), (''bytes'', PBytes ''abc'')]"

definition example_closing :: "ref_conn WSStream" where
  "example_closing =
     (case handle ref_env (Data 1 ''hello'') example_connected of
        Some (r, s) \<Rightarrow> s
      | None \<Rightarrow> example_connected)"

section \<open>The lifetime of a stream\<close>

fun is_Request :: "event \<Rightarrow> bool" where
  "is_Request (Request sid headers hv meth raw_path) = True"
| "is_Request ev = False"

fun is_Response_sent :: "effect \<Rightarrow> bool" where
  "is_Response_sent (Send (Response sid code headers)) = True"
| "is_Response_sent e = False"

text \<open>The number of Response events sent so far.\<close>

definition responses :: "effect list \<Rightarrow> nat" where
  "responses tr = length (filter is_Response_sent tr)"

text \<open>
  What happens to a stream: its protocol calls \<open>handle\<close>, the application's task calls
  \<open>app_send\<close>, with None when the application has ended. The protocol delivers one
  Request to a stream; \<open>app_send\<close> is the callback handed to \<open>spawn_app\<close>, so it is
  called only once the application is spawned, and not again after None.
\<close>

datatype input = Handle event | AppSend "message option"

definition admissible :: "bool \<Rightarrow> bool \<Rightarrow> 'c WSStream \<Rightarrow> input \<Rightarrow> bool" where
  "admissible seen finished s i =
     (case i of
        Handle ev \<Rightarrow> \<not> (is_Request ev \<and> seen)
      | AppSend m \<Rightarrow> app_put s \<noteq> None \<and> \<not> finished)"

text \<open>
  One call; an exception it raises goes to the caller and the stream stays as the call
  left it. None when \<open>handle\<close> does not return.
\<close>

definition step :: "'c env \<Rightarrow> input \<Rightarrow> 'c WSStream \<Rightarrow> 'c WSStream option" where
  "step env i s =
     (case i of
        Handle ev \<Rightarrow> map_option snd (handle env ev s)
      | AppSend m \<Rightarrow> Some (snd (app_send env m s)))"

text \<open>
  The stream after a list of calls; \<open>seen\<close> says that a Request was handled and
  \<open>finished\<close> that the application has ended. None when a call is not admissible or
  does not return.
\<close>

fun lifetime ::
  "'c env \<Rightarrow> input list \<Rightarrow> bool \<Rightarrow> bool \<Rightarrow> 'c WSStream \<Rightarrow> 'c WSStream option" where
  "lifetime env [] seen finished s = Some s"
| "lifetime env (i # rest) seen finished s =
     (if admissible seen finished s i then
        (case step env i s of
           None \<Rightarrow> None
         | Some s' \<Rightarrow>
             lifetime env rest
               (seen \<or> (case i of Handle ev \<Rightarrow> is_Request ev | AppSend m \<Rightarrow> False))
               (finished \<or> i = AppSend None) s')
      else None)"

text \<open>A call that sends no Response and leaves state, app_put and scope alone.\<close>

definition quiet :: "'c WSStream \<Rightarrow> 'c WSStream \<Rightarrow> bool" where
  "quiet s s' \<longleftrightarrow>
     state s' = state s \<and> app_put s' = app_put s \<and> scope s' = scope s
     \<and> responses (trace s') = responses (trace s)"

text \<open>
  What holds throughout a lifetime: no Response before the Request, a scope once the
  application is spawned, and no Response yet while the application is running and the
  state is HANDSHAKE.
\<close>

definition lifecycle_inv :: "bool \<Rightarrow> bool \<Rightarrow> 'c WSStream \<Rightarrow> bool" where
  "lifecycle_inv seen finished s \<longleftrightarrow>
     responses (trace s) \<le> 1
     \<and> (\<not> seen \<longrightarrow> app_put s = None \<and> responses (trace s) = 0)
     \<and> (app_put s \<noteq> None \<longrightarrow> scope s \<noteq> None)
     \<and> (state s = HANDSHAKE \<and> app_put s \<noteq> None \<and> \<not> finished \<longrightarrow> responses (trace s) = 0)"

text \<open>A rejection in two body messages, the end of the application, the close of the stream.\<close>

definition example_lifetime :: "input list" where
  "example_lifetime =
     [Handle example_request, AppSend (Some reject_start),
      AppSend (Some ((''more_body'', PBool True) # reject_body)),
      AppSend (Some reject_body), AppSend None, Handle (StreamClosed 1)]"


section \<open>Properties\<close>

lemmas act_defs =
  skip_def raise_def seq_def send_def set_state_def call_app_put_def access_log_def

lemma ustr_eq_iff [simp]: "ustr a = ustr b \<longleftrightarrow> a = b"
  unfolding ustr_def by (simp add: inj_map_eq_map[OF inj_of_char])

subsection \<open>After the stream is closed\<close>

lemma handle_StreamClosed:
  assumes "app_put s \<noteq> None"
  shows "handle env (StreamClosed sid) s =
           Some (None, s\<lparr>closed := True,
                          trace := trace s @ [AppPut [(''type'', PStr (ustr ''websocket.disconnect''))]]\<rparr>)"
  using assms by (auto simp: handle_def act_defs)

text \<open>
  C9. Once the closed flag is set (as a StreamClosed event sets it, see
  \<open>handle_StreamClosed\<close>), \<open>app_send\<close> with any message, None included, raises nothing,
  emits nothing and leaves the stream as it was.
\<close>

theorem app_send_after_close:
  assumes "closed s"
  shows "app_send env message s = (None, s)"
  using assms by (simp add: app_send_def)

theorem app_send_after_close_witness:
  "closed example_closed
   \<and> app_send ref_env None example_closed = (None, example_closed)
   \<and> app_send ref_env
        (Some [(''type'', PStr (ustr ''websocket.send'')), (''text'', PStr (ustr ''hi''))])
        example_closed = (None, example_closed)"
proof -
  have h: "closed example_closed" by code_simp
  show ?thesis using h app_send_after_close [OF h] by simp
qed

subsection \<open>Accepting the handshake\<close>

text \<open>
  C10. When the application accepts with a subprotocol that is not None and not one of
  those the client offered, the client having offered none included,
  \<open>Handshake.accept\<close> raises (a TypeError when there was no sec-websocket-protocol
  header, the Invalid Subprotocol exception otherwise), and \<open>app_send\<close> raises it
  without emitting anything: only the state has changed, to CONNECTED.
\<close>

theorem accept_rejects_subprotocol:
  assumes "subprotocol \<noteq> PNone"
    and "subprotocols h = None
         \<or> (\<exists>offered. subprotocols h = Some offered \<and> subprotocol \<notin> PStr ` set offered)"
    and "\<not> closed s" and "state s = HANDSHAKE" and "handshake s = Some h"
    and "getitem msg ''type'' = Inr (PStr (ustr ''websocket.accept''))"
    and "get_default msg ''subprotocol'' PNone = subprotocol"
  shows "\<exists>e. accept env h subprotocol = Inl e \<and> (e = TypeError \<or> e = InvalidSubprotocol)
           \<and> app_send env (Some msg) s = (Some e, s\<lparr>state := CONNECTED\<rparr>)"
proof -
  have "accept_subprotocol h subprotocol = Inl TypeError
        \<or> accept_subprotocol h subprotocol = Inl InvalidSubprotocol"
  proof (cases "subprotocols h")
    case None
    then show ?thesis using assms(1) by (simp add: accept_subprotocol_def)
  next
    case (Some offered)
    with assms(2) have "subprotocol \<notin> PStr ` set offered" by simp
    then have "\<not> list_ex (\<lambda>s. PStr s = subprotocol) offered"
      by (auto simp: list_ex_iff)
    then show ?thesis using assms(1) Some by (simp add: accept_subprotocol_def)
  qed
  then show ?thesis
    using assms(3-7) by (auto simp: accept_def app_send_def app_send_accept_def)
qed

theorem accept_rejects_subprotocol_witness:
  "\<exists>e. accept ref_env example_handshake (PStr (ustr ''graphql'')) = Inl e
        \<and> (e = TypeError \<or> e = InvalidSubprotocol)
        \<and> app_send ref_env
             (Some [(''type'', PStr (ustr ''websocket.accept'')),
                    (''subprotocol'', PStr (ustr ''graphql''))])
             example_spawned
           = (Some e, example_spawned\<lparr>state := CONNECTED\<rparr>)"
proof -
  have 1: "PStr (ustr ''graphql'') \<noteq> PNone" by simp
  have 2: "subprotocols example_handshake = None
           \<or> (\<exists>offered. subprotocols example_handshake = Some offered
                  \<and> PStr (ustr ''graphql'') \<notin> PStr ` set offered)"
  proof -
    have "subprotocols example_handshake = Some [ustr ''chat'', ustr ''superchat'']"
      by code_simp
    then show ?thesis by simp
  qed
  have 3: "\<not> closed example_spawned" by code_simp
  have 4: "state example_spawned = HANDSHAKE" by code_simp
  have 5: "handshake example_spawned = Some example_handshake" by code_simp
  have 6: "getitem [(''type'', PStr (ustr ''websocket.accept'')),
                    (''subprotocol'', PStr (ustr ''graphql''))] ''type''
           = Inr (PStr (ustr ''websocket.accept''))"
    by (simp add: getitem_def)
  have 7: "get_default [(''type'', PStr (ustr ''websocket.accept'')),
                        (''subprotocol'', PStr (ustr ''graphql''))] ''subprotocol'' PNone
           = PStr (ustr ''graphql'')"
    by (simp add: get_default_def)
  show ?thesis using accept_rejects_subprotocol [OF 1 2 3 4 5 6 7] by simp
qed

lemma accept_subprotocol_names:
  assumes "accept_subprotocol h sp = Inr ph"
  shows "ph = [] \<or> (\<exists>b. ph = [(''sec-websocket-protocol'', b)])"
  using assms
  by (auto simp: accept_subprotocol_def split: if_splits option.splits pyval.splits sum.splits)

lemma accept_result:
  assumes "accept_subprotocol h sp = Inr ph"
  shows "accept env h sp =
           Inr (if http_version h = ustr ''1.1'' then 101 else 200,
                ph @ (case key h of
                        None \<Rightarrow> []
                      | Some k \<Rightarrow> [(''sec-websocket-accept'', generate_accept_token env k)])
                   @ (if http_version h = ustr ''1.1''
                      then [(''upgrade'', ''WebSocket''), (''connection'', ''Upgrade'')] else []),
                new_connection env [PerMessageDeflate])"
  using assms by (simp add: accept_def split: option.splits)

lemma is_valid_key:
  assumes "is_valid h = Inr True" and "http_version h = ustr ''1.1''"
  shows "\<exists>k. key h = Some k"
  using assms by (auto simp: is_valid_def split: if_splits)

text \<open>
  C8. A valid handshake accepted by the application in the HANDSHAKE state (with no
  subprotocol, or an offered one: \<open>ph\<close> is the sec-websocket-protocol header, if any):
  the stream becomes CONNECTED and emits one Response. On HTTP/1.1 its status is 101
  and its headers are \<open>ph\<close>, then sec-websocket-accept with the token that wsproto
  computes from the client's key alone, then upgrade: WebSocket and connection:
  Upgrade. On any other version the status is 200 and the headers are \<open>ph\<close> and, when
  the client sent a key, sec-websocket-accept: no upgrade and no connection header.
\<close>

theorem accept_response:
  assumes "\<not> closed s" and "state s = HANDSHAKE" and "handshake s = Some h"
    and "scope s = Some sc"
    and "getitem msg ''type'' = Inr (PStr (ustr ''websocket.accept''))"
    and "is_valid h = Inr True"
    and "accept_subprotocol h (get_default msg ''subprotocol'' PNone) = Inr ph"
  shows "\<exists>code headers.
           app_send env (Some msg) s =
             (None, s\<lparr>state := CONNECTED,
                      connection := Some (new_connection env [PerMessageDeflate]),
                      trace := trace s @ [Send (Response (stream_id s) code headers),
                                          AccessLog sc (status_summary code)]\<rparr>)
           \<and> (if http_version h = ustr ''1.1''
              then code = 101
                   \<and> (\<exists>k. key h = Some k
                        \<and> headers = ph @ [(''sec-websocket-accept'', generate_accept_token env k),
                                          (''upgrade'', ''WebSocket''), (''connection'', ''Upgrade'')])
              else code = 200
                   \<and> headers = ph @ (case key h of
                                       None \<Rightarrow> []
                                     | Some k \<Rightarrow>
                                         [(''sec-websocket-accept'', generate_accept_token env k)])
                   \<and> ''upgrade'' \<notin> fst ` set headers \<and> ''connection'' \<notin> fst ` set headers)"
proof (cases "http_version h = ustr ''1.1''")
  case True
  then obtain k where k: "key h = Some k" using is_valid_key [OF assms(6)] by blast
  show ?thesis
    using assms(1-5) True k accept_result [OF assms(7), of env]
    by (simp add: app_send_def app_send_accept_def act_defs)
next
  case False
  have "ph = [] \<or> (\<exists>b. ph = [(''sec-websocket-protocol'', b)])"
    using accept_subprotocol_names [OF assms(7)] .
  then show ?thesis
    using assms(1-5) False accept_result [OF assms(7), of env]
    by (auto simp: app_send_def app_send_accept_def act_defs split: option.splits)
qed

theorem accept_response_witness:
  "\<exists>code headers.
     app_send ref_env (Some accept_chat) example_spawned =
       (None, example_spawned\<lparr>state := CONNECTED,
                connection := Some (new_connection ref_env [PerMessageDeflate]),
                trace := trace example_spawned
                           @ [Send (Response (stream_id example_spawned) code headers),
                              AccessLog example_scope (status_summary code)]\<rparr>)
     \<and> (if http_version example_handshake = ustr ''1.1''
        then code = 101
             \<and> (\<exists>k. key example_handshake = Some k
                  \<and> headers = [(''sec-websocket-protocol'', ''chat'')]
                       @ [(''sec-websocket-accept'', generate_accept_token ref_env k),
                          (''upgrade'', ''WebSocket''), (''connection'', ''Upgrade'')])
        else code = 200
             \<and> headers = [(''sec-websocket-protocol'', ''chat'')]
                  @ (case key example_handshake of
                       None \<Rightarrow> []
                     | Some k \<Rightarrow> [(''sec-websocket-accept'', generate_accept_token ref_env k)])
             \<and> ''upgrade'' \<notin> fst ` set headers \<and> ''connection'' \<notin> fst ` set headers)"
proof -
  have 1: "\<not> closed example_spawned" by code_simp
  have 2: "state example_spawned = HANDSHAKE" by code_simp
  have 3: "handshake example_spawned = Some example_handshake" by code_simp
  have 4: "scope example_spawned = Some example_scope" by code_simp
  have 5: "getitem accept_chat ''type'' = Inr (PStr (ustr ''websocket.accept''))" by code_simp
  have 6: "is_valid example_handshake = Inr True" by code_simp
  have 7: "accept_subprotocol example_handshake (get_default accept_chat ''subprotocol'' PNone)
           = Inr [(''sec-websocket-protocol'', ''chat'')]" by code_simp
  show ?thesis using accept_response [OF 1 2 3 4 5 6 7] .
qed

subsection \<open>Extensions\<close>

lemma accept_no_extensions:
  assumes "accept env h sp = Inr (code, headers, conn)"
  shows "\<not> list_ex (\<lambda>(n, v). n = ''sec-websocket-extensions'') headers"
proof -
  obtain ph where ph: "accept_subprotocol h sp = Inr ph"
    using assms by (cases "accept_subprotocol h sp") (auto simp: accept_def)
  have "ph = [] \<or> (\<exists>b. ph = [(''sec-websocket-protocol'', b)])"
    using accept_subprotocol_names [OF ph] .
  then show ?thesis
    using assms accept_result [OF ph, of env] by (auto split: option.splits if_splits)
qed

text \<open>
  C3, as stated, at the example request: the configuration enables PerMessage-Deflate
  and the client offers it, and the Response to websocket.accept carries no
  sec-websocket-extensions header.
\<close>

theorem deflate_enabled_not_offered:
  "\<not> (offers_extensions (trace (snd (app_send ref_env (Some accept_chat) example_spawned)))
       \<longleftrightarrow> permessage_deflate (config example_spawned))"
  by code_simp

text \<open>
  C3, amended. Whatever the configuration \<open>cfg\<close> and whatever the client offered, the
  Response to websocket.accept in the HANDSHAKE state carries no
  sec-websocket-extensions header: the negotiation in \<open>Handshake.accept\<close> is switched
  off and no option of the configuration is read.
\<close>

theorem accept_never_offers_extensions:
  assumes "getitem msg ''type'' = Inr (PStr (ustr ''websocket.accept''))"
    and "state s = HANDSHAKE"
    and "\<not> offers_extensions (trace s)"
  shows "\<not> offers_extensions (trace (snd (app_send env (Some msg) (s\<lparr>config := cfg\<rparr>))))"
proof (cases "closed s")
  case True
  then show ?thesis using assms(3) by (simp add: app_send_def)
next
  case False
  show ?thesis
  proof (cases "handshake s")
    case None
    then show ?thesis using assms False by (simp add: app_send_def app_send_accept_def)
  next
    case (Some h)
    show ?thesis
    proof (cases "accept env h (get_default msg ''subprotocol'' PNone)")
      case (Inl e)
      then show ?thesis using assms False Some by (simp add: app_send_def app_send_accept_def)
    next
      case (Inr r)
      obtain code headers conn where r: "r = (code, headers, conn)" by (cases r) auto
      have "\<not> list_ex (\<lambda>(n, v). n = ''sec-websocket-extensions'') headers"
        using accept_no_extensions [OF Inr [unfolded r]] .
      then show ?thesis
        using assms False Some Inr r
        by (cases "scope s")
           (simp_all add: app_send_def app_send_accept_def act_defs offers_extensions_def Let_def)
    qed
  qed
qed

theorem accept_never_offers_extensions_witness:
  "\<not> offers_extensions
       (trace (snd (app_send ref_env (Some accept_chat)
                      (example_spawned\<lparr>config := example_config\<lparr>permessage_deflate := True\<rparr>\<rparr>))))
   \<and> \<not> offers_extensions
       (trace (snd (app_send ref_env (Some accept_chat)
                      (example_spawned\<lparr>config := example_config\<lparr>permessage_deflate := False\<rparr>\<rparr>))))"
proof -
  have 1: "getitem accept_chat ''type'' = Inr (PStr (ustr ''websocket.accept''))" by code_simp
  have 2: "state example_spawned = HANDSHAKE" by code_simp
  have 3: "\<not> offers_extensions (trace example_spawned)" by code_simp
  show ?thesis using accept_never_offers_extensions [OF 1 2 3] by simp
qed

subsection \<open>Messages of the application on an open connection\<close>

text \<open>
  C5, as stated, at two streams in the CONNECTED state that lifetimes of the example
  stream reach. After the close with code 1009 the state is still CONNECTED and the
  wsproto connection, which is closing, refuses the message: websocket.send raises
  LocalProtocolError. After an acceptance that raised, the state is CONNECTED and no
  connection was assigned: websocket.send raises AttributeError. Neither emits a frame.
\<close>

theorem websocket_send_without_frame:
  "lifetime ref_env
     [Handle example_request, AppSend (Some accept_chat), Handle (Data 1 ''hello'')]
     False False example_stream = Some example_closing
   \<and> state example_closing = CONNECTED \<and> \<not> closed example_closing
   \<and> app_send ref_env (Some send_abc) example_closing
       = (Some LocalProtocolError, example_closing)
   \<and> lifetime ref_env [Handle example_request, AppSend (Some accept_graphql)]
        False False example_stream = Some example_failed_accept
   \<and> state example_failed_accept = CONNECTED \<and> \<not> closed example_failed_accept
   \<and> app_send ref_env (Some send_abc) example_failed_accept
       = (Some AttributeError, example_failed_accept)"
  by code_simp

text \<open>
  C5, amended. websocket.send in the CONNECTED state, on a stream whose wsproto
  connection \<open>c\<close> exists and accepts the event: when the bytes field is not None,
  the one event emitted is the Data that wsproto returns for a BytesMessage with those
  bytes; when it is None or missing and the text field is not a str, TypeError is
  raised and nothing is emitted; when the text field is a str, the one event emitted
  is the Data that wsproto returns for a TextMessage with that text.
\<close>

theorem websocket_send_frames:
  assumes "\<not> closed s" and "state s = CONNECTED"
    and "getitem msg ''type'' = Inr (PStr (ustr ''websocket.send''))"
    and "connection s = Some c"
  shows "(\<forall>b d c'. get_default msg ''bytes'' PNone \<noteq> PNone
            \<longrightarrow> py_bytes (get_default msg ''bytes'' PNone) = Inr b
            \<longrightarrow> conn_send env c (BytesMessage b True True) = Inr (d, c')
            \<longrightarrow> app_send env (Some msg) s
                  = (None, s\<lparr>connection := Some c',
                             trace := trace s @ [Send (Data (stream_id s) d)]\<rparr>))
       \<and> (\<forall>v. get_default msg ''bytes'' PNone = PNone
            \<longrightarrow> getitem msg ''text'' = Inr v \<longrightarrow> (\<forall>t. v \<noteq> PStr t)
            \<longrightarrow> app_send env (Some msg) s = (Some TypeError, s))
       \<and> (\<forall>t d c'. get_default msg ''bytes'' PNone = PNone
            \<longrightarrow> getitem msg ''text'' = Inr (PStr t)
            \<longrightarrow> conn_send env c (TextMessage t True True) = Inr (d, c')
            \<longrightarrow> app_send env (Some msg) s
                  = (None, s\<lparr>connection := Some c',
                             trace := trace s @ [Send (Data (stream_id s) d)]\<rparr>))"
proof (intro conjI allI impI)
  fix b d c'
  assume "get_default msg ''bytes'' PNone \<noteq> PNone"
    and "py_bytes (get_default msg ''bytes'' PNone) = Inr b"
    and "conn_send env c (BytesMessage b True True) = Inr (d, c')"
  then show "app_send env (Some msg) s
               = (None, s\<lparr>connection := Some c',
                          trace := trace s @ [Send (Data (stream_id s) d)]\<rparr>)"
    using assms
    by (simp add: app_send_def app_send_send_def send_event_of_def send_wsproto_event_def
                  act_defs)
next
  fix v
  assume "get_default msg ''bytes'' PNone = PNone" and "getitem msg ''text'' = Inr v"
    and "\<forall>t. v \<noteq> PStr t"
  then show "app_send env (Some msg) s = (Some TypeError, s)"
    using assms
    by (cases v) (simp_all add: app_send_def app_send_send_def send_event_of_def)
next
  fix t d c'
  assume "get_default msg ''bytes'' PNone = PNone" and "getitem msg ''text'' = Inr (PStr t)"
    and "conn_send env c (TextMessage t True True) = Inr (d, c')"
  then show "app_send env (Some msg) s
               = (None, s\<lparr>connection := Some c',
                          trace := trace s @ [Send (Data (stream_id s) d)]\<rparr>)"
    using assms
    by (simp add: app_send_def app_send_send_def send_event_of_def send_wsproto_event_def
                  act_defs)
qed

theorem websocket_send_frames_witness:
  "app_send ref_env
     (Some [(''type'', PStr (ustr ''websocket.send'')), (''bytes'', PBytes ''abc'')])
     example_connected
     = (None, example_connected\<lparr>connection := Some (OPEN, []),
               trace := trace example_connected @ [Send (Data 1 ''Babc'')]\<rparr>)
   \<and> app_send ref_env
       (Some [(''type'', PStr (ustr ''websocket.send'')), (''text'', PInt 3)])
       example_connected
     = (Some TypeError, example_connected)
   \<and> app_send ref_env
       (Some [(''type'', PStr (ustr ''websocket.send'')), (''bytes'', PNone),
              (''text'', PStr (ustr ''hi''))])
       example_connected
     = (None, example_connected\<lparr>connection := Some (OPEN, []),
               trace := trace example_connected @ [Send (Data 1 ''Thi'')]\<rparr>)"
proof -
  have 1: "\<not> closed example_connected" by code_simp
  have 2: "state example_connected = CONNECTED" by code_simp
  have 4: "connection example_connected = Some (OPEN, [])" by code_simp
  have sid: "stream_id example_connected = 1" by code_simp
  have b: "conn_send ref_env (OPEN, []) (BytesMessage ''abc'' True True)
           = Inr (''Babc'', (OPEN, []))"
    by code_simp
  have t: "conn_send ref_env (OPEN, []) (TextMessage (ustr ''hi'') True True)
           = Inr (''Thi'', (OPEN, []))"
    by code_simp
  have A: "app_send ref_env
             (Some [(''type'', PStr (ustr ''websocket.send'')), (''bytes'', PBytes ''abc'')])
             example_connected
           = (None, example_connected\<lparr>connection := Some (OPEN, []),
                     trace := trace example_connected @ [Send (Data 1 ''Babc'')]\<rparr>)"
    using websocket_send_frames [OF 1 2 _ 4,
            of "[(''type'', PStr (ustr ''websocket.send'')), (''bytes'', PBytes ''abc'')]" ref_env]
          b sid
    by (simp add: getitem_def get_default_def)
  have B: "app_send ref_env
             (Some [(''type'', PStr (ustr ''websocket.send'')), (''text'', PInt 3)])
             example_connected
           = (Some TypeError, example_connected)"
    using websocket_send_frames [OF 1 2 _ 4,
            of "[(''type'', PStr (ustr ''websocket.send'')), (''text'', PInt 3)]" ref_env]
    by (simp add: getitem_def get_default_def)
  have C: "app_send ref_env
             (Some [(''type'', PStr (ustr ''websocket.send'')), (''bytes'', PNone),
                    (''text'', PStr (ustr ''hi''))])
             example_connected
           = (None, example_connected\<lparr>connection := Some (OPEN, []),
                     trace := trace example_connected @ [Send (Data 1 ''Thi'')]\<rparr>)"
    using websocket_send_frames [OF 1 2 _ 4,
            of "[(''type'', PStr (ustr ''websocket.send'')), (''bytes'', PNone),
                 (''text'', PStr (ustr ''hi''))]" ref_env]
          t sid
    by (simp add: getitem_def get_default_def)
  show ?thesis using A B C by simp
qed

subsection \<open>The application fails\<close>

text \<open>
  \<open>app_send(None)\<close> on a stream that is not closed. In the HANDSHAKE state (the
  scope was set when the request was handled) the stream emits the Response 500 with
  content-length 0 and connection close, then EndBody, logs the access twice, and
  sends StreamClosed with its stream_id. In the CONNECTED state, with a wsproto
  connection that accepts the close, it emits the Data that wsproto returns for a
  close with the abnormal-closure code, then StreamClosed.
\<close>

lemma app_fault:
  assumes "\<not> closed s"
  shows "(state s = HANDSHAKE \<longrightarrow> scope s = Some sc \<longrightarrow>
            app_send env None s =
              (None, s\<lparr>trace := trace s @
                   [Send (Response (stream_id s) 500
                            [(''content-length'', ''0''), (''connection'', ''close'')]),
                    Send (EndBody (stream_id s)),
                    AccessLog sc (status_summary 500), AccessLog sc (status_summary 500),
                    Send (StreamClosed (stream_id s))]\<rparr>))
       \<and> (state s = CONNECTED \<longrightarrow> connection s = Some c \<longrightarrow>
            conn_send env c (CloseConnection ABNORMAL_CLOSURE None) = Inr (d, c') \<longrightarrow>
            app_send env None s =
              (None, s\<lparr>connection := Some c',
                       trace := trace s @ [Send (Data (stream_id s) d),
                                           Send (StreamClosed (stream_id s))]\<rparr>))"
  using assms
  by (simp add: app_send_def send_error_response_def send_wsproto_event_def act_defs)

lemma app_fault_example:
  "app_send ref_env None example_spawned =
     (None, example_spawned\<lparr>trace := trace example_spawned @
          [Send (Response 1 500 [(''content-length'', ''0''), (''connection'', ''close'')]),
           Send (EndBody 1),
           AccessLog example_scope (status_summary 500),
           AccessLog example_scope (status_summary 500),
           Send (StreamClosed 1)]\<rparr>)
   \<and> app_send ref_env None example_connected =
     (None, example_connected\<lparr>connection := Some (LOCAL_CLOSING, []),
              trace := trace example_connected
                         @ [Send (Data 1 [CHR ''C'', CHR 0x03, CHR 0xEE]),
                            Send (StreamClosed 1)]\<rparr>)"
proof -
  have 1: "\<not> closed example_spawned" by code_simp
  have 2: "state example_spawned = HANDSHAKE" by code_simp
  have 3: "scope example_spawned = Some example_scope" by code_simp
  have 4: "stream_id example_spawned = 1" by code_simp
  have 5: "\<not> closed example_connected" by code_simp
  have 6: "state example_connected = CONNECTED" by code_simp
  have 7: "connection example_connected = Some (OPEN, [])" by code_simp
  have 8: "stream_id example_connected = 1" by code_simp
  have 9: "conn_send ref_env (OPEN, []) (CloseConnection ABNORMAL_CLOSURE None)
           = Inr ([CHR ''C'', CHR 0x03, CHR 0xEE], (LOCAL_CLOSING, []))" by code_simp
  show ?thesis
    using app_fault [OF 1, of example_scope ref_env]
          app_fault [OF 5, of _ ref_env "(OPEN, [])"]
          2 3 4 6 7 8 9 by simp
qed

text \<open>
  The state is CONNECTED as soon as the application sends websocket.accept, and the
  connection is assigned only when \<open>Handshake.accept\<close> returns. After an acceptance
  that raised, the stream is CONNECTED without a connection, and \<open>app_send(None)\<close>
  raises AttributeError before it sends anything.
\<close>

lemma app_fault_without_connection:
  assumes "\<not> closed s" and "state s = CONNECTED" and "connection s = None"
  shows "app_send env None s = (Some AttributeError, s)"
  using assms by (simp add: app_send_def send_wsproto_event_def act_defs)

text \<open>
  C4, at the example stream: the application accepts with a subprotocol that the
  client did not offer, which raises in the application, and its task then signals
  the fault. The stream is in the CONNECTED state; \<open>app_send(None)\<close> raises
  AttributeError and emits neither a Response 500, nor a close frame, nor StreamClosed.
\<close>

theorem app_fault_after_failed_accept:
  "app_send ref_env (Some accept_graphql) example_spawned
     = (Some InvalidSubprotocol, example_failed_accept)
   \<and> state example_failed_accept = CONNECTED
   \<and> \<not> closed example_failed_accept
   \<and> trace example_failed_accept = trace example_spawned
   \<and> app_send ref_env None example_failed_accept = (Some AttributeError, example_failed_accept)"
proof -
  have 1: "app_send ref_env (Some accept_graphql) example_spawned
             = (Some InvalidSubprotocol, example_failed_accept)" by code_simp
  have 2: "state example_failed_accept = CONNECTED" by code_simp
  have 3: "\<not> closed example_failed_accept" by code_simp
  have 4: "connection example_failed_accept = None" by code_simp
  have 5: "trace example_failed_accept = trace example_spawned" by code_simp
  show ?thesis using 1 2 3 5 app_fault_without_connection [OF 3 2 4] by simp
qed

subsection \<open>Rejecting the handshake with an HTTP response\<close>

lemma suppress_body_GET:
  "suppress_body (ustr ''GET'') code
     \<longleftrightarrow> (100 \<le> code \<and> code < 200) \<or> code = 204 \<or> code = 304"
  by (simp add: suppress_body_def)

text \<open>
  C7. A rejection on a stream that is not closed. websocket.http.response.start in
  the HANDSHAKE state stores the message and emits nothing. The first
  websocket.http.response.body then emits the Response with the declared status and
  the validated headers, and the state leaves HANDSHAKE for RESPONSE; a later body
  finds the state RESPONSE. In both, a Body is emitted unless the status suppresses
  it (\<open>suppress_body\<close>: 1xx, 204, 304, see \<open>suppress_body_GET\<close>), and when more_body
  is false EndBody is emitted, suppressed or not, and the state becomes HTTPCLOSED.
\<close>

theorem rejection_response:
  assumes "\<not> closed s"
  shows "(state s = HANDSHAKE \<longrightarrow>
            getitem start ''type'' = Inr (PStr (ustr ''websocket.http.response.start'')) \<longrightarrow>
            app_send env (Some start) s = (None, s\<lparr>response := Some start\<rparr>))
       \<and> (getitem msg ''type'' = Inr (PStr (ustr ''websocket.http.response.body'')) \<longrightarrow>
          response s = Some resp \<longrightarrow> scope s = Some sc \<longrightarrow>
          getitem resp ''status'' = Inr st \<longrightarrow> as_int st = Inr code \<longrightarrow>
          (suppress_body (ustr ''GET'') code
           \<or> py_bytes (get_default msg ''body'' (PBytes [])) = Inr b) \<longrightarrow>
          (state s = HANDSHAKE \<longrightarrow>
             getitem resp ''headers'' = Inr hv \<longrightarrow>
             build_and_validate_headers env hv = Inr headers \<longrightarrow>
             app_send env (Some msg) s =
               (None, s\<lparr>state := (if truthy (get_default msg ''more_body'' (PBool False))
                                  then RESPONSE else HTTPCLOSED),
                        trace := trace s @ [Send (Response (stream_id s) code headers)]
                           @ (if suppress_body (ustr ''GET'') code then []
                              else [Send (Body (stream_id s) b)])
                           @ (if truthy (get_default msg ''more_body'' (PBool False)) then []
                              else [Send (EndBody (stream_id s)), AccessLog sc resp])\<rparr>))
          \<and> (state s = RESPONSE \<longrightarrow>
             app_send env (Some msg) s =
               (None, s\<lparr>state := (if truthy (get_default msg ''more_body'' (PBool False))
                                  then RESPONSE else HTTPCLOSED),
                        trace := trace s
                           @ (if suppress_body (ustr ''GET'') code then []
                              else [Send (Body (stream_id s) b)])
                           @ (if truthy (get_default msg ''more_body'' (PBool False)) then []
                              else [Send (EndBody (stream_id s)), AccessLog sc resp])\<rparr>)))"
  using assms
  by (auto simp: app_send_def send_rejection_def act_defs Let_def)

theorem rejection_response_witness:
  "app_send ref_env (Some reject_start) example_spawned
     = (None, example_spawned\<lparr>response := Some reject_start\<rparr>)
   \<and> app_send ref_env (Some reject_body) example_rejecting
     = (None, example_rejecting\<lparr>state := HTTPCLOSED,
               trace := trace example_rejecting
                 @ [Send (Response 1 204 [(''x-reason'', ''closed'')]),
                    Send (EndBody 1), AccessLog example_scope reject_start]\<rparr>)
   \<and> app_send ref_env (Some reject_body) (example_rejecting\<lparr>state := RESPONSE\<rparr>)
     = (None, example_rejecting\<lparr>state := HTTPCLOSED,
               trace := trace example_rejecting
                 @ [Send (EndBody 1), AccessLog example_scope reject_start]\<rparr>)"
proof -
  have 1: "\<not> closed example_spawned" by code_simp
  have 2: "state example_spawned = HANDSHAKE" by code_simp
  have 3: "getitem reject_start ''type'' = Inr (PStr (ustr ''websocket.http.response.start''))"
    by code_simp
  have A: "app_send ref_env (Some reject_start) example_spawned
             = (None, example_spawned\<lparr>response := Some reject_start\<rparr>)"
    using rejection_response [OF 1, where start = reject_start and env = ref_env] 2 3 by simp
  have 4: "\<not> closed example_rejecting" by code_simp
  have 5: "state example_rejecting = HANDSHAKE" by code_simp
  have 6: "getitem reject_body ''type'' = Inr (PStr (ustr ''websocket.http.response.body''))"
    by code_simp
  have 7: "response example_rejecting = Some reject_start" by code_simp
  have 8: "scope example_rejecting = Some example_scope" by code_simp
  have 9: "getitem reject_start ''status'' = Inr (PInt 204)" by code_simp
  have 10: "as_int (PInt 204) = Inr 204" by simp
  have 11: "suppress_body (ustr ''GET'') 204" by (simp add: suppress_body_def)
  have 12: "getitem reject_start ''headers'' = Inr (PList [PList [PBytes ''X-Reason'', PBytes ''closed'']])"
    by code_simp
  have 13: "build_and_validate_headers ref_env (PList [PList [PBytes ''X-Reason'', PBytes ''closed'']])
            = Inr [(''x-reason'', ''closed'')]" by code_simp
  have 14: "\<not> truthy (get_default reject_body ''more_body'' (PBool False))" by code_simp
  have 15: "stream_id example_rejecting = 1" by code_simp
  have B: "app_send ref_env (Some reject_body) example_rejecting
     = (None, example_rejecting\<lparr>state := HTTPCLOSED,
               trace := trace example_rejecting
                 @ [Send (Response 1 204 [(''x-reason'', ''closed'')]),
                    Send (EndBody 1), AccessLog example_scope reject_start]\<rparr>)"
    using rejection_response [OF 4, where msg = reject_body and resp = reject_start
                                and sc = example_scope and st = "PInt 204" and code = 204
                                and hv = "PList [PList [PBytes ''X-Reason'', PBytes ''closed'']]"
                                and env = ref_env and headers = "[(''x-reason'', ''closed'')]"]
          5 6 7 8 9 10 11 12 13 14 15 by simp
  have 16: "\<not> closed (example_rejecting\<lparr>state := RESPONSE\<rparr>)" using 4 by simp
  have C: "app_send ref_env (Some reject_body) (example_rejecting\<lparr>state := RESPONSE\<rparr>)
     = (None, example_rejecting\<lparr>state := HTTPCLOSED,
               trace := trace example_rejecting
                 @ [Send (EndBody 1), AccessLog example_scope reject_start]\<rparr>)"
    using rejection_response [OF 16, where msg = reject_body and resp = reject_start
                                and sc = example_scope and st = "PInt 204" and code = 204
                                and hv = "PList [PList [PBytes ''X-Reason'', PBytes ''closed'']]"
                                and env = ref_env and headers = "[(''x-reason'', ''closed'')]"]
          6 7 8 9 10 11 14 15 by simp
  show ?thesis using A B C by simp
qed

subsection \<open>A handshake that is not valid\<close>

lemma str_lt_11 [simp]: "\<not> str_lt (ustr ''1.1'') (ustr ''1.1'')"
  by (simp add: ustr_def)

text \<open>
  When \<open>is_valid\<close> returns False on HTTP/1.1, and when it raises: the upgrade header is
  read with \<open>self.upgrade.lower()\<close> once the key and the connection tokens have passed.
\<close>

lemma is_valid_False_http11:
  assumes "http_version h = ustr ''1.1''"
  shows "is_valid h = Inr False \<longleftrightarrow>
           key h = None
           \<or> connection_tokens h = None
           \<or> (\<exists>ts. connection_tokens h = Some ts
                  \<and> \<not> list_ex (\<lambda>token. str_lower token = ustr ''upgrade'') ts)
           \<or> (\<exists>u. upgrade h = Some u
                  \<and> (bytes_lower u \<noteq> ''websocket'' \<or> version h \<noteq> Some WEBSOCKET_VERSION))"
  using assms
  by (auto simp: is_valid_def version_is_valid_def split: option.splits)

lemma is_valid_missing_upgrade:
  assumes "http_version h = ustr ''1.1''" and "key h = Some k"
    and "connection_tokens h = Some ts"
    and "list_ex (\<lambda>token. str_lower token = ustr ''upgrade'') ts" and "upgrade h = None"
  shows "is_valid h = Inl AttributeError"
  using assms by (simp add: is_valid_def)

text \<open>
  C1, as stated, at two requests whose headers fail the validation (the version is 12):
  over HTTP/2 with a path that is not ASCII, \<open>handle\<close> raises UnicodeDecodeError while
  it builds the scope, before it validates; on HTTP/1.1 with a key, an upgrade token
  in the connection header and no upgrade header, \<open>is_valid\<close> raises AttributeError.
  Neither emits a Response.
\<close>

theorem invalid_handshake_without_400:
  "(case handle ref_env bad_path_request example_stream of
      Some (r, s) \<Rightarrow> r = Some UnicodeDecodeError \<and> trace s = []
    | None \<Rightarrow> False)
   \<and> (case handle ref_env no_upgrade_request example_stream of
      Some (r, s) \<Rightarrow> r = Some AttributeError \<and> trace s = []
    | None \<Rightarrow> False)"
  by code_simp

text \<open>
  C1, amended. For a Request whose headers wsproto can split (\<open>Handshake_init\<close> returns
  the handshake \<open>h\<close>), whose path is ASCII, and on which \<open>is_valid\<close> returns False (on
  HTTP/1.1: \<open>is_valid_False_http11\<close>), \<open>handle\<close> returns after emitting the Response
  400 with content-length 0 and connection close, then EndBody, and logging the
  access: \<open>spawn_app\<close> is not called and \<open>app_put\<close> stays as it was.
\<close>

theorem invalid_handshake_400:
  assumes "Handshake_init env headers hv = Inr h"
    and "decode_ascii (fst (partition_qmark raw_path)) = Inr p"
    and "is_valid h = Inr False"
    and "sc = request_scope env s headers hv p (fst (partition_qmark raw_path))
                (snd (partition_qmark raw_path)) h"
  shows "handle env (Request sid headers hv meth raw_path) s =
           Some (None, s\<lparr>handshake := Some h, scope := Some sc,
                          trace := trace s @
                            [Send (Response (stream_id s) 400
                                     [(''content-length'', ''0''), (''connection'', ''close'')]),
                             Send (EndBody (stream_id s)),
                             AccessLog sc (status_summary 400)]\<rparr>)"
  using assms
  by (simp add: handle_def handle_request_def send_error_response_def act_defs
                request_scope_def Let_def)

theorem invalid_handshake_400_witness:
  "handle ref_env old_version_request example_stream =
     Some (None, example_stream\<lparr>handshake := Some old_version_handshake,
                   scope := Some old_version_scope,
                   trace := [Send (Response 1 400
                                     [(''content-length'', ''0''), (''connection'', ''close'')]),
                             Send (EndBody 1),
                             AccessLog old_version_scope (status_summary 400)]\<rparr>)"
proof -
  have 1: "Handshake_init ref_env old_version_headers (ustr ''1.1'') = Inr old_version_handshake"
    by code_simp
  have 2: "decode_ascii (fst (partition_qmark ''/chat'')) = Inr (ustr ''/chat'')" by code_simp
  have 3: "is_valid old_version_handshake = Inr False" by code_simp
  have 4: "old_version_scope =
             request_scope ref_env example_stream old_version_headers (ustr ''1.1'')
               (ustr ''/chat'') (fst (partition_qmark ''/chat'')) (snd (partition_qmark ''/chat''))
               old_version_handshake"
    by (simp add: old_version_scope_def partition_qmark_def)
  have 5: "stream_id example_stream = 1" "trace example_stream = []"
    by (simp_all add: example_stream_def WSStream_init_def)
  show ?thesis
    using invalid_handshake_400 [OF 1 2 3 4, of 1 "ustr ''GET''"] 5
    by (simp add: old_version_request_def)
qed

subsection \<open>A message that is too big\<close>

text \<open>When \<open>extend\<close> raises FrameTooLarge: the buffer holds more than \<open>max_length\<close>.\<close>

lemma buffer_extend_text:
  assumes "buf_value b = None \<and> t = [] \<or> buf_value b = Some (BufText t)"
  shows "buffer_extend b (TextMessage d ff mf) =
           (if int (length (t @ d)) > max_length b then Some FrameTooLarge else None,
            b\<lparr>buf_value := Some (BufText (t @ d))\<rparr>)"
  using assms by (auto simp: buffer_extend_def buf_len_def Let_def)

lemma buffer_extend_bytes:
  assumes "buf_value b = None \<and> x = [] \<or> buf_value b = Some (BufBytes x)"
  shows "buffer_extend b (BytesMessage d ff mf) =
           (if int (length (x @ d)) > max_length b then Some FrameTooLarge else None,
            b\<lparr>buf_value := Some (BufBytes (x @ d))\<rparr>)"
  using assms by (auto simp: buffer_extend_def buf_len_def Let_def)

text \<open>
  C2, as stated, at the connected example stream (the limit is 4) receiving the five
  bytes of one message: the close frame with code 1009 is sent, and that is all. The
  state is still CONNECTED and nothing was put to the application.
\<close>

theorem message_too_big_stays_connected:
  "(case handle ref_env (Data 1 ''hello'') example_connected of
      Some (r, s) \<Rightarrow>
        r = None \<and> state s = CONNECTED
        \<and> trace s = trace example_connected @ [Send (Data 1 [CHR ''C'', CHR 0x03, CHR 0xF1])]
    | None \<Rightarrow> False)"
  by code_simp

text \<open>
  C2, amended. When the next event of the connection is a text or binary message and
  appending it makes the buffer longer than \<open>max_length\<close> (\<open>extend\<close> raises
  FrameTooLarge), \<open>_handle_events\<close> sends the close frame that wsproto returns for
  code 1009 and returns, leaving the events behind it unread. The buffer keeps the
  oversized value; the state, the closed flag and the application are untouched.
\<close>

theorem message_too_big:
  assumes "connection s = Some c"
    and "conn_next_event env c = Some (ev, c1)"
    and "is_Message ev"
    and "buffer_extend (buffer s) ev = (Some FrameTooLarge, b)"
    and "conn_send env c1 (CloseConnection MESSAGE_TOO_BIG None) = Inr (d, c2)"
  shows "handle_events env s =
           Some (None, s\<lparr>buffer := b, connection := Some c2,
                          trace := trace s @ [Send (Data (stream_id s) d)]\<rparr>)"
  using assms
  by (subst handle_events.simps)
     (simp add: handle_ws_event_def break_after_def send_wsproto_event_def act_defs)

theorem message_too_big_witness:
  "handle_events ref_env example_receiving =
     Some (None, example_receiving\<lparr>
                   buffer := \<lparr>buf_value = Some (BufBytes ''hello''), max_length = 4\<rparr>,
                   connection := Some (LOCAL_CLOSING, []),
                   trace := trace example_receiving
                              @ [Send (Data 1 [CHR ''C'', CHR 0x03, CHR 0xF1])]\<rparr>)"
proof -
  have 1: "connection example_receiving = Some (OPEN, [BytesMessage ''hello'' True True])"
    by code_simp
  have 2: "conn_next_event ref_env (OPEN, [BytesMessage ''hello'' True True])
           = Some (BytesMessage ''hello'' True True, (OPEN, []))" by code_simp
  have 3: "is_Message (BytesMessage ''hello'' True True)" by simp
  have 4: "buffer_extend (buffer example_receiving) (BytesMessage ''hello'' True True)
           = (Some FrameTooLarge, \<lparr>buf_value = Some (BufBytes ''hello''), max_length = 4\<rparr>)"
    by code_simp
  have 5: "conn_send ref_env (OPEN, []) (CloseConnection MESSAGE_TOO_BIG None)
           = Inr ([CHR ''C'', CHR 0x03, CHR 0xF1], (LOCAL_CLOSING, []))" by code_simp
  have 6: "stream_id example_receiving = 1" by code_simp
  show ?thesis using message_too_big [OF 1 2 3 4 5] 6 by simp
qed

subsection \<open>At most one Response\<close>

lemma responses_append [simp]: "responses (xs @ ys) = responses xs + responses ys"
  by (simp add: responses_def)

lemma responses_simps [simp]:
  "responses [] = 0"
  "responses (Send (Response sid code hs) # tr) = Suc (responses tr)"
  "responses (Send (Data sid d) # tr) = responses tr"
  "responses (Send (Body sid d) # tr) = responses tr"
  "responses (Send (EndBody sid) # tr) = responses tr"
  "responses (Send (EndData sid) # tr) = responses tr"
  "responses (Send (StreamClosed sid) # tr) = responses tr"
  "responses (AppPut m # tr) = responses tr"
  "responses (SpawnApp sc # tr) = responses tr"
  "responses (AccessLog sc m # tr) = responses tr"
  by (simp_all add: responses_def)

lemma quiet_refl [simp]: "quiet s s"
  by (simp add: quiet_def)

lemma quiet_trans: "quiet s s' \<Longrightarrow> quiet s' s'' \<Longrightarrow> quiet s s''"
  by (simp add: quiet_def)

lemma send_wsproto_event_quiet:
  "send_wsproto_event env ev s = (r, s') \<Longrightarrow> quiet s s'"
  by (auto simp: send_wsproto_event_def act_defs quiet_def split: option.splits sum.splits)

lemma handle_ws_event_quiet:
  assumes "handle_ws_event env ev s = (r, s')"
  shows "quiet s s'"
proof (cases "is_Message ev")
  case True
  obtain x b where xb: "buffer_extend (buffer s) ev = (x, b)" by (cases "buffer_extend (buffer s) ev")
  have q0: "quiet s (s\<lparr>buffer := b\<rparr>)" by (simp add: quiet_def)
  show ?thesis
  proof (cases x)
    case None
    then show ?thesis using assms True xb
      by (auto simp: handle_ws_event_def continue_after_def act_defs quiet_def split: if_splits option.splits)
  next
    case (Some e)
    show ?thesis
    proof (cases "e = FrameTooLarge")
      case t: True
      obtain r1 s1 where s1: "send_wsproto_event env (CloseConnection MESSAGE_TOO_BIG None) (s\<lparr>buffer := b\<rparr>) = (r1, s1)"
        by (cases "send_wsproto_event env (CloseConnection MESSAGE_TOO_BIG None) (s\<lparr>buffer := b\<rparr>)")
      have "quiet (s\<lparr>buffer := b\<rparr>) s1" using send_wsproto_event_quiet [OF s1] .
      then have "quiet s s1" using q0 quiet_trans by blast
      moreover have "s' = s1" using assms True xb Some t s1
        by (auto simp: handle_ws_event_def break_after_def split: option.splits)
      ultimately show ?thesis by simp
    next
      case False
      then have "s' = s\<lparr>buffer := b\<rparr>" using assms True xb Some
        by (cases e) (auto simp: handle_ws_event_def)
      then show ?thesis using q0 by simp
    qed
  qed
next
  case False
  show ?thesis
  proof (cases ev)
    case (Ping p)
    then show ?thesis using assms send_wsproto_event_quiet [of env "Pong p" s]
      by (cases "send_wsproto_event env (Pong p) s")
         (auto simp: handle_ws_event_def continue_after_def split: option.splits)
  next
    case (CloseConnection c r0)
    show ?thesis
    proof (cases "connection s")
      case None
      then show ?thesis using assms CloseConnection
        by (auto simp: handle_ws_event_def continue_after_def act_defs)
    next
      case (Some conn)
      show ?thesis
      proof (cases "conn_state env conn = REMOTE_CLOSING")
        case True
        obtain r1 s1 where s1: "send_wsproto_event env (CloseConnection c r0) s = (r1, s1)"
          by (cases "send_wsproto_event env (CloseConnection c r0) s")
        have q: "quiet s s1" using send_wsproto_event_quiet [OF s1] .
        show ?thesis using assms CloseConnection Some True s1 q
          by (cases r1) (auto simp: handle_ws_event_def continue_after_def act_defs quiet_def)
      next
        case f: False
        then show ?thesis using assms CloseConnection Some
          by (auto simp: handle_ws_event_def continue_after_def act_defs quiet_def)
      qed
    qed
  qed (use assms False in \<open>auto simp: handle_ws_event_def\<close>)
qed

lemma handle_events_quiet_snd:
  assumes "handle_events env0 s0 = Some y0"
  shows "quiet s0 (snd y0)"
proof (rule handle_events.raw_induct [where P = "\<lambda>env s y. quiet s (snd y)", OF _ assms],
       goal_cases)
  case (1 f env s y)
  show ?case
  proof (cases "connection s")
    case None
    then show ?thesis using 1(2) by auto
  next
    case c: (Some c)
    show ?thesis
    proof (cases "conn_next_event env c")
      case None
      then show ?thesis using 1(2) c by auto
    next
      case (Some p)
      obtain ev c' where p: "p = (ev, c')" by (cases p)
      obtain lr s1 where s1: "handle_ws_event env ev (s\<lparr>connection := Some c'\<rparr>) = (lr, s1)"
        by (cases "handle_ws_event env ev (s\<lparr>connection := Some c'\<rparr>)")
      have "quiet (s\<lparr>connection := Some c'\<rparr>) s1" using handle_ws_event_quiet [OF s1] .
      then have q: "quiet s s1" by (simp add: quiet_def)
      show ?thesis
      proof (cases lr)
        case Continue
        then have "f env s1 = Some y"
          using 1(2) c Some p s1 by simp
        then have "quiet s1 (snd y)" using 1(1) by blast
        then show ?thesis using q quiet_trans by blast
      next
        case Break
        then show ?thesis using 1(2) c Some p s1 q by auto
      next
        case (Raised e)
        then show ?thesis using 1(2) c Some p s1 q by auto
      qed
    qed
  qed
qed

lemma handle_events_quiet:
  "handle_events env s = Some (r, s') \<Longrightarrow> quiet s s'"
  using handle_events_quiet_snd by fastforce

lemma handle_data_quiet:
  assumes "handle_data env d s = Some (r, s')"
  shows "quiet s s'"
proof (cases "connection s")
  case None
  then show ?thesis using assms by (auto simp: handle_data_def)
next
  case (Some c)
  show ?thesis
  proof (cases "conn_receive_data env c (if d = [] then None else Some d)")
    case (Inl e)
    then show ?thesis using assms Some by (auto simp: handle_data_def)
  next
    case (Inr c')
    then have "handle_events env (s\<lparr>connection := Some c'\<rparr>) = Some (r, s')"
      using assms Some by (simp add: handle_data_def)
    then have "quiet (s\<lparr>connection := Some c'\<rparr>) s'" by (rule handle_events_quiet)
    then show ?thesis by (simp add: quiet_def)
  qed
qed

lemma send_error_response_effect:
  assumes "scope s = Some sc"
  shows "send_error_response code s =
           (None, s\<lparr>trace := trace s @ [Send (Response (stream_id s) code
                                                [(''content-length'', ''0''), (''connection'', ''close'')]),
                                         Send (EndBody (stream_id s)),
                                         AccessLog sc (status_summary code)]\<rparr>)"
  using assms by (simp add: send_error_response_def act_defs)

lemma send_rejection_effect:
  assumes "send_rejection env msg s = (r, s')"
  shows "app_put s' = app_put s \<and> scope s' = scope s
         \<and> (responses (trace s') = responses (trace s) \<and> (state s' = HANDSHAKE \<longrightarrow> state s = HANDSHAKE)
            \<or> responses (trace s') = Suc (responses (trace s)) \<and> state s = HANDSHAKE \<and> state s' \<noteq> HANDSHAKE)"
  using assms
  by (auto simp: send_rejection_def act_defs Let_def
           split: option.splits sum.splits if_splits)

lemma app_send_accept_effect:
  assumes "app_send_accept env msg s = (r, s')"
  shows "app_put s' = app_put s \<and> scope s' = scope s \<and> state s' \<noteq> HANDSHAKE
         \<and> (responses (trace s') = responses (trace s)
            \<or> responses (trace s') = Suc (responses (trace s)))"
  using assms
  by (auto simp: app_send_accept_def act_defs Let_def
           split: option.splits sum.splits if_splits prod.splits)

lemma app_send_close_effect:
  assumes "app_send_close env msg s = (r, s')"
  shows "app_put s' = app_put s \<and> scope s' = scope s
         \<and> responses (trace s') = responses (trace s) \<and> (state s' = HANDSHAKE \<longrightarrow> state s = HANDSHAKE)"
proof (cases "py_int env (get_default msg ''code'' (PInt NORMAL_CLOSURE))")
  case (Inl e)
  then show ?thesis using assms by (auto simp: app_send_close_def)
next
  case (Inr c)
  obtain r1 s1 where s1: "send_wsproto_event env (CloseConnection c None) s = (r1, s1)"
    by (cases "send_wsproto_event env (CloseConnection c None) s")
  have q: "quiet s s1" using send_wsproto_event_quiet [OF s1] .
  show ?thesis using assms Inr s1 q
    by (cases r1) (auto simp: app_send_close_def act_defs quiet_def)
qed

lemma app_send_effect:
  assumes "app_send env m s = (r, s')" and "scope s \<noteq> None"
  shows "app_put s' = app_put s \<and> scope s' = scope s
         \<and> (responses (trace s') = responses (trace s) \<and> (state s' = HANDSHAKE \<longrightarrow> state s = HANDSHAKE)
            \<or> responses (trace s') = Suc (responses (trace s)) \<and> state s = HANDSHAKE
               \<and> (state s' = HANDSHAKE \<longrightarrow> m = None))"
proof (cases "closed s")
  case True
  then show ?thesis using assms by (simp add: app_send_def)
next
  case nc: False
  obtain sc where sc: "scope s = Some sc" using assms(2) by blast
  show ?thesis
  proof (cases m)
    case None
    show ?thesis
    proof (cases "state s = HANDSHAKE")
      case True
      then show ?thesis using assms(1) nc None sc
        by (auto simp: app_send_def send_error_response_effect [OF sc] act_defs)
    next
      case nh: False
      show ?thesis
      proof (cases "state s = CONNECTED")
        case True
        obtain r1 s1 where s1: "send_wsproto_event env (CloseConnection ABNORMAL_CLOSURE None) s = (r1, s1)"
          by (cases "send_wsproto_event env (CloseConnection ABNORMAL_CLOSURE None) s")
        have q: "quiet s s1" using send_wsproto_event_quiet [OF s1] .
        show ?thesis using assms(1) nc None nh True s1 q
          by (cases r1) (auto simp: app_send_def act_defs quiet_def)
      next
        case False
        then show ?thesis using assms(1) nc None nh
          by (auto simp: app_send_def act_defs)
      qed
    qed
  next
    case (Some msg)
    show ?thesis
    proof (cases "getitem msg ''type''")
      case (Inl e)
      then show ?thesis using assms(1) nc Some by (auto simp: app_send_def)
    next
      case (Inr ty)
      have "(state s = HANDSHAKE \<and> app_send env m s = app_send_accept env msg s)
            \<or> app_send env m s = (None, s\<lparr>response := Some msg\<rparr>)
            \<or> app_send env m s = send_rejection env msg s
            \<or> app_send env m s = app_send_send env msg s
            \<or> (state s = HANDSHAKE
                \<and> app_send env m s = seq (send_error_response 403) (set_state HTTPCLOSED) s)
            \<or> app_send env m s = app_send_close env msg s
            \<or> app_send env m s = (Some (UnexpectedMessage (state s) ty), s)"
        by (simp add: app_send_def nc Some Inr)
      then consider
          (accept) "state s = HANDSHAKE" "app_send env m s = app_send_accept env msg s"
        | (start) "app_send env m s = (None, s\<lparr>response := Some msg\<rparr>)"
        | (body) "app_send env m s = send_rejection env msg s"
        | (send) "app_send env m s = app_send_send env msg s"
        | (close403) "state s = HANDSHAKE"
            "app_send env m s = seq (send_error_response 403) (set_state HTTPCLOSED) s"
        | (close) "app_send env m s = app_send_close env msg s"
        | (unexpected) "app_send env m s = (Some (UnexpectedMessage (state s) ty), s)"
        by blast
      then show ?thesis
      proof cases
        case accept
        then show ?thesis using assms(1) app_send_accept_effect [of env msg s r s'] Some by auto
      next
        case start
        then show ?thesis using assms(1) by auto
      next
        case body
        then show ?thesis using assms(1) send_rejection_effect [of env msg s r s'] by auto
      next
        case send
        show ?thesis
        proof (cases "send_event_of msg")
          case (Inl e)
          then show ?thesis using assms(1) send by (auto simp: app_send_send_def)
        next
          case (Inr ev)
          then have "quiet s s'" using assms(1) send send_wsproto_event_quiet [of env ev s r s']
            by (simp add: app_send_send_def)
          then show ?thesis by (simp add: quiet_def)
        qed
      next
        case close403
        then show ?thesis using assms(1) Some
          by (auto simp: send_error_response_effect [OF sc] act_defs)
      next
        case close
        then show ?thesis using assms(1) app_send_close_effect [of env msg s r s'] by auto
      next
        case unexpected
        then show ?thesis using assms(1) by auto
      qed
    qed
  qed
qed

lemma handle_request_effect:
  assumes "handle_request env headers hv raw_path s = (r, s')"
    and "app_put s = None" and "responses (trace s) = 0"
  shows "responses (trace s') \<le> 1
         \<and> (app_put s' \<noteq> None \<longrightarrow> scope s' \<noteq> None \<and> responses (trace s') = 0)"
proof (cases "Handshake_init env headers hv")
  case (Inl e)
  then show ?thesis using assms by (auto simp: handle_request_def)
next
  case h: (Inr h)
  show ?thesis
  proof (cases "decode_ascii (fst (partition_qmark raw_path))")
    case (Inl e)
    then show ?thesis using assms h by (auto simp: handle_request_def Let_def)
  next
    case p: (Inr p)
    show ?thesis
    proof (cases "is_valid h")
      case (Inl e)
      then show ?thesis using assms h p by (auto simp: handle_request_def Let_def)
    next
      case (Inr ok)
      then show ?thesis using assms h p
        by (cases ok)
           (auto simp: handle_request_def Let_def send_error_response_def act_defs)
    qed
  qed
qed

lemma handle_StreamClosed_quiet:
  assumes "handle env (StreamClosed sid) s = Some (r, s')"
  shows "quiet s s'"
  using assms by (auto simp: handle_def act_defs quiet_def split: if_splits option.splits)

lemma lifecycle_inv_quiet:
  assumes "lifecycle_inv seen finished s" and "quiet s s'"
  shows "lifecycle_inv seen finished s'"
  using assms by (simp add: lifecycle_inv_def quiet_def)

lemma lifecycle_inv_mono:
  assumes "lifecycle_inv seen finished s"
  shows "lifecycle_inv True finished s"
  using assms by (simp add: lifecycle_inv_def)

lemma lifecycle_step:
  assumes inv: "lifecycle_inv seen finished s"
    and adm: "admissible seen finished s i"
    and st: "step env i s = Some s'"
  shows "lifecycle_inv (seen \<or> (case i of Handle ev \<Rightarrow> is_Request ev | AppSend m \<Rightarrow> False))
           (finished \<or> i = AppSend None) s'"
proof (cases i)
  case (Handle ev)
  obtain r where h: "handle env ev s = Some (r, s')"
    using st Handle by (auto simp: step_def)
  show ?thesis
  proof (cases ev)
    case (Request sid headers hv meth raw_path)
    then have ns: "\<not> seen" using adm Handle by (simp add: admissible_def)
    then have 0: "app_put s = None" "responses (trace s) = 0"
      using inv by (simp_all add: lifecycle_inv_def)
    have "handle_request env headers hv raw_path s = (r, s')"
      using h Request by (simp add: handle_def)
    from handle_request_effect [OF this 0]
    show ?thesis using Handle Request by (auto simp: lifecycle_inv_def)
  next
    case (Body sid d)
    then have "quiet s s'" using h handle_data_quiet by (auto simp: handle_def)
    then show ?thesis using inv Handle Body lifecycle_inv_quiet by auto
  next
    case (Data sid d)
    then have "quiet s s'" using h handle_data_quiet by (auto simp: handle_def)
    then show ?thesis using inv Handle Data lifecycle_inv_quiet by auto
  next
    case (StreamClosed sid)
    then have "quiet s s'" using h handle_StreamClosed_quiet by auto
    then show ?thesis using inv Handle StreamClosed lifecycle_inv_quiet by auto
  next
    case (EndBody sid)
    then have "s' = s" using h by (simp add: handle_def)
    then show ?thesis using inv Handle EndBody by simp
  next
    case (EndData sid)
    then have "s' = s" using h by (simp add: handle_def)
    then show ?thesis using inv Handle EndData by simp
  next
    case (Response sid code hs)
    then have "s' = s" using h by (simp add: handle_def)
    then show ?thesis using inv Handle Response by simp
  qed
next
  case (AppSend m)
  then have a: "app_put s \<noteq> None" "\<not> finished" using adm by (simp_all add: admissible_def)
  then have sc: "scope s \<noteq> None" and seen: seen
    using inv by (auto simp: lifecycle_inv_def)
  obtain r where r: "app_send env m s = (r, s')"
    using st AppSend by (cases "app_send env m s") (auto simp: step_def)
  from app_send_effect [OF r sc] show ?thesis
    using inv a seen AppSend by (auto simp: lifecycle_inv_def)
qed

lemma lifetime_inv:
  assumes "lifetime env inputs seen finished s = Some s'"
    and "lifecycle_inv seen finished s"
  shows "\<exists>seen' finished'. lifecycle_inv seen' finished' s'"
  using assms
proof (induction inputs arbitrary: seen finished s)
  case Nil
  then show ?case by auto
next
  case (Cons i rest)
  from Cons.prems(1) have adm: "admissible seen finished s i"
    by (auto split: if_splits)
  then obtain s1 where s1: "step env i s = Some s1"
    and rest: "lifetime env rest (seen \<or> (case i of Handle ev \<Rightarrow> is_Request ev | AppSend m \<Rightarrow> False))
                 (finished \<or> i = AppSend None) s1 = Some s'"
    using Cons.prems(1) by (auto split: option.splits)
  from lifecycle_step [OF Cons.prems(2) adm s1] Cons.IH [OF rest]
  show ?case by blast
qed

text \<open>
  C6. Over the lifetime of a stream (every list of calls of \<open>handle\<close> and \<open>app_send\<close>
  on a new stream in which a Request is handled at most once, \<open>app_send\<close> is called
  only once the application is spawned and not again after None), at most one
  Response is sent, whichever of the 400, 101 or 200, rejection, 403 and 500 paths
  are taken.
\<close>

theorem at_most_one_response:
  assumes "lifetime env inputs False False (WSStream_init cfg ssl cl srv sid) = Some s'"
  shows "responses (trace s') \<le> 1"
proof -
  have "lifecycle_inv False False (WSStream_init cfg ssl cl srv sid :: 'a WSStream)"
    by (simp add: lifecycle_inv_def WSStream_init_def)
  from lifetime_inv [OF assms this] show ?thesis by (auto simp: lifecycle_inv_def)
qed

theorem at_most_one_response_witness:
  "\<exists>s'. lifetime ref_env example_lifetime False False
           (WSStream_init example_config False None None 1) = Some s'
        \<and> responses (trace s') \<le> 1"
proof -
  have "lifetime ref_env example_lifetime False False
          (WSStream_init example_config False None None 1) \<noteq> None"
    by code_simp
  then obtain s' where
    s: "lifetime ref_env example_lifetime False False
          (WSStream_init example_config False None None 1) = Some s'"
    by blast
  show ?thesis using s at_most_one_response [OF s] by blast
qed

end
